theory Spec2Isabelle
  imports Complex_Main "HOL-Library.Log_Nat"
begin

section \<open>JavaScript numbers\<close>

text \<open>
  The fee engine, the module the routes import as \<^verbatim>\<open>@/lib/stripe\<close>, computes on
  JavaScript values of type
  \<^verbatim>\<open>number\<close>: IEEE 754 binary64 values. A finite value is carried as the
  rational it denotes; the two infinities and NaN are constructors of their own. Every arithmetic
  operation computes the exact result and rounds it to the nearest binary64 value, ties to
  the even significand, as the standard prescribes.

  The sign of a zero is not modelled (\<open>Fin 0\<close> stands for both zeros). In the functions
  below the sign of a zero can only change a result through a division by zero, and the one
  division whose divisor can be zero, \<^verbatim>\<open>basePlatformFee / basePrice\<close>, has a zero
  dividend whenever the divisor is zero: the quotient is NaN for either sign.
\<close>

datatype number = Fin rat | PosInf | NegInf | NaN

definition pow2 :: "int \<Rightarrow> rat" where
  "pow2 e = (if 0 \<le> e then 2 ^ nat e else 1 / 2 ^ nat (- e))"

text \<open>The exponent of a positive rational: \<open>pow2 (ilog2 x) \<le> x < pow2 (ilog2 x + 1)\<close>.\<close>

definition ilog2 :: "rat \<Rightarrow> int" where
  "ilog2 x = (case quotient_of x of (p, q) \<Rightarrow>
     (let d = bitlen p - bitlen q in if pow2 d \<le> x then d else d - 1))"

definition round_half_even :: "rat \<Rightarrow> int" where
  "round_half_even t =
     (let n = \<lfloor>t\<rfloor>; r = t - of_int n
      in if r < 1 / 2 then n
         else if 1 / 2 < r then n + 1
         else if even n then n else n + 1)"

text \<open>
  Rounding to binary64: 53 significant bits, the least exponent of a unit in the last place
  is \<open>-1074\<close> (subnormal numbers), and a result that rounds to \<open>2^1024\<close> or beyond
  overflows to an infinity.
\<close>

definition ulp_exp :: "rat \<Rightarrow> int" where
  "ulp_exp x = max (ilog2 \<bar>x\<bar> - 52) (- 1074)"

definition rnd :: "rat \<Rightarrow> rat" where
  "rnd x =
     (if x = 0 then 0
      else of_int (round_half_even (x / pow2 (ulp_exp x))) * pow2 (ulp_exp x))"

definition fl :: "rat \<Rightarrow> number" where
  "fl x =
     (let y = rnd x
      in if pow2 1024 \<le> y then PosInf
         else if y \<le> - pow2 1024 then NegInf
         else Fin y)"

fun js_neg :: "number \<Rightarrow> number" where
  "js_neg (Fin a) = Fin (- a)"
| "js_neg PosInf = NegInf"
| "js_neg NegInf = PosInf"
| "js_neg NaN = NaN"

fun js_add :: "number \<Rightarrow> number \<Rightarrow> number" where
  "js_add (Fin a) (Fin b) = fl (a + b)"
| "js_add NaN _ = NaN"
| "js_add _ NaN = NaN"
| "js_add PosInf NegInf = NaN"
| "js_add NegInf PosInf = NaN"
| "js_add PosInf _ = PosInf"
| "js_add _ PosInf = PosInf"
| "js_add NegInf _ = NegInf"
| "js_add _ NegInf = NegInf"

definition js_sub :: "number \<Rightarrow> number \<Rightarrow> number" where
  "js_sub x y = js_add x (js_neg y)"

text \<open>The sign of a number: \<open>-1\<close>, \<open>0\<close> or \<open>1\<close>; NaN has none.\<close>

fun js_sign :: "number \<Rightarrow> int" where
  "js_sign (Fin a) = (if a < 0 then - 1 else if a = 0 then 0 else 1)"
| "js_sign PosInf = 1"
| "js_sign NegInf = - 1"
| "js_sign NaN = 0"

definition signed_inf :: "int \<Rightarrow> number" where
  "signed_inf s = (if s < 0 then NegInf else PosInf)"

fun js_mul :: "number \<Rightarrow> number \<Rightarrow> number" where
  "js_mul (Fin a) (Fin b) = fl (a * b)"
| "js_mul NaN _ = NaN"
| "js_mul _ NaN = NaN"
| "js_mul x y =
     (if js_sign x = 0 \<or> js_sign y = 0 then NaN else signed_inf (js_sign x * js_sign y))"

fun js_div :: "number \<Rightarrow> number \<Rightarrow> number" where
  "js_div (Fin a) (Fin b) =
     (if b = 0 then (if a = 0 then NaN else signed_inf (js_sign (Fin a))) else fl (a / b))"
| "js_div NaN _ = NaN"
| "js_div _ NaN = NaN"
| "js_div (Fin a) _ = Fin 0"
| "js_div x (Fin b) = signed_inf (js_sign x * (if b < 0 then - 1 else 1))"
| "js_div _ _ = NaN"

text \<open>
  \<^verbatim>\<open>Math.round\<close>: the integer nearest to the argument, the greater one at a tie;
  NaN and the infinities are returned as they are.
\<close>

fun Math_round :: "number \<Rightarrow> number" where
  "Math_round (Fin a) = Fin (of_int \<lfloor>a + 1 / 2\<rfloor>)"
| "Math_round x = x"

text \<open>
  The comparisons \<^verbatim>\<open><=\<close>, \<^verbatim>\<open><\<close> and \<^verbatim>\<open>===\<close>: false as soon as one side
  is NaN.
\<close>

fun js_le :: "number \<Rightarrow> number \<Rightarrow> bool" where
  "js_le NaN _ = False"
| "js_le _ NaN = False"
| "js_le (Fin a) (Fin b) = (a \<le> b)"
| "js_le NegInf _ = True"
| "js_le _ PosInf = True"
| "js_le _ _ = False"

fun js_lt :: "number \<Rightarrow> number \<Rightarrow> bool" where
  "js_lt NaN _ = False"
| "js_lt _ NaN = False"
| "js_lt (Fin a) (Fin b) = (a < b)"
| "js_lt NegInf NegInf = False"
| "js_lt NegInf _ = True"
| "js_lt PosInf _ = False"
| "js_lt _ PosInf = True"
| "js_lt _ _ = False"

fun js_eq :: "number \<Rightarrow> number \<Rightarrow> bool" where
  "js_eq NaN _ = False"
| "js_eq _ NaN = False"
| "js_eq x y = (x = y)"

section \<open>The fee engine\<close>

text \<open>
  The module constants. \<^verbatim>\<open>PLATFORM_FEE_PERCENTAGE\<close> is read from the environment
  variable \<^verbatim>\<open>STRIPE_APPLICATION_FEE_PERCENT\<close> when the module is loaded; the value here
  is the one of the default configuration, \<^verbatim>\<open>parseInt('15', 10)\<close>. The literal
  \<^verbatim>\<open>2.9\<close> denotes the binary64 value nearest to 29/10.
\<close>

definition PLATFORM_FEE_PERCENTAGE :: number where
  "PLATFORM_FEE_PERCENTAGE = Fin 15"

definition INSTRUCTOR_PERCENTAGE :: number where
  "INSTRUCTOR_PERCENTAGE = js_sub (Fin 100) PLATFORM_FEE_PERCENTAGE"

definition STRIPE_PERCENTAGE_FEE :: number where
  "STRIPE_PERCENTAGE_FEE = fl (29 / 10)"

definition STRIPE_FIXED_FEE_CENTS :: number where
  "STRIPE_FIXED_FEE_CENTS = Fin 30"

record fees =
  platformFee :: number
  instructorAmount :: number

definition calculateFees :: "number \<Rightarrow> fees" where
  "calculateFees amount =
     (let stripeFeePercentage =
            Math_round (js_div (js_mul amount STRIPE_PERCENTAGE_FEE) (Fin 100));
          totalStripeFee = js_add stripeFeePercentage STRIPE_FIXED_FEE_CENTS;
          amountAfterStripeFee = js_sub amount totalStripeFee;
          basePrice =
            Math_round
              (js_sub (js_div amount (js_add (Fin 1) (js_div STRIPE_PERCENTAGE_FEE (Fin 100))))
                 STRIPE_FIXED_FEE_CENTS);
          basePlatformFee =
            Math_round (js_div (js_mul basePrice PLATFORM_FEE_PERCENTAGE) (Fin 100));
          platformProportion = js_div basePlatformFee basePrice;
          platformShareOfStripeFee = Math_round (js_mul totalStripeFee platformProportion);
          platformFeeWithStripeCosts = js_add basePlatformFee platformShareOfStripeFee;
          instructorAmount = js_sub amount platformFeeWithStripeCosts
      in \<lparr>platformFee = platformFeeWithStripeCosts, instructorAmount = instructorAmount\<rparr>)"

text \<open>
  \<open>calculateFees\<close> above is the function in the default configuration. The module fixes
  \<^verbatim>\<open>PLATFORM_FEE_PERCENTAGE\<close> when it is loaded, from the environment, and
  \<open>calculateFees_with\<close> is the same body for any value \<open>platformFeePercentage\<close> of that
  constant (\<open>calculateFees_default\<close> below).
\<close>

definition calculateFees_with :: "number \<Rightarrow> number \<Rightarrow> fees" where
  "calculateFees_with platformFeePercentage amount =
     (let stripeFeePercentage =
            Math_round (js_div (js_mul amount STRIPE_PERCENTAGE_FEE) (Fin 100));
          totalStripeFee = js_add stripeFeePercentage STRIPE_FIXED_FEE_CENTS;
          amountAfterStripeFee = js_sub amount totalStripeFee;
          basePrice =
            Math_round
              (js_sub (js_div amount (js_add (Fin 1) (js_div STRIPE_PERCENTAGE_FEE (Fin 100))))
                 STRIPE_FIXED_FEE_CENTS);
          basePlatformFee =
            Math_round (js_div (js_mul basePrice platformFeePercentage) (Fin 100));
          platformProportion = js_div basePlatformFee basePrice;
          platformShareOfStripeFee = Math_round (js_mul totalStripeFee platformProportion);
          platformFeeWithStripeCosts = js_add basePlatformFee platformShareOfStripeFee;
          instructorAmount = js_sub amount platformFeeWithStripeCosts
      in \<lparr>platformFee = platformFeeWithStripeCosts, instructorAmount = instructorAmount\<rparr>)"

text \<open>
  The local constants of \<open>calculateFees\<close> the claims speak of, as functions of the amount
  (\<open>calculateFees_parts\<close> below relates them to \<open>calculateFees\<close>).
\<close>

definition totalStripeFee_of :: "number \<Rightarrow> number" where
  "totalStripeFee_of amount =
     js_add (Math_round (js_div (js_mul amount STRIPE_PERCENTAGE_FEE) (Fin 100)))
       STRIPE_FIXED_FEE_CENTS"

definition basePrice_of :: "number \<Rightarrow> number" where
  "basePrice_of amount =
     Math_round
       (js_sub (js_div amount (js_add (Fin 1) (js_div STRIPE_PERCENTAGE_FEE (Fin 100))))
          STRIPE_FIXED_FEE_CENTS)"

definition basePlatformFee_of :: "number \<Rightarrow> number" where
  "basePlatformFee_of amount =
     Math_round (js_div (js_mul (basePrice_of amount) PLATFORM_FEE_PERCENTAGE) (Fin 100))"

definition platformShareOfStripeFee_of :: "number \<Rightarrow> number" where
  "platformShareOfStripeFee_of amount =
     Math_round
       (js_mul (totalStripeFee_of amount)
          (js_div (basePlatformFee_of amount) (basePrice_of amount)))"

definition calculatePriceWithStripeFees :: "number \<Rightarrow> number" where
  "calculatePriceWithStripeFees basePrice =
     (let priceWithFees =
            js_div (js_add basePrice STRIPE_FIXED_FEE_CENTS)
              (js_sub (Fin 1) (js_div STRIPE_PERCENTAGE_FEE (Fin 100)))
      in Math_round priceWithFees)"

section \<open>The call sites\<close>

text \<open>
  \<^verbatim>\<open>app/api/checkout-lesson/route.ts\<close>, \<^verbatim>\<open>POST\<close>: the numbers of the Checkout Session
  the route creates for a paid lesson. The argument is \<^verbatim>\<open>Number(price)\<close>, the lesson's
  price in dollars. \<open>unit_amount\<close> is the amount of the line item,
  \<open>application_fee_amount\<close> the platform's fee in \<^verbatim>\<open>payment_intent_data\<close>, and
  \<open>metadata_instructorPayoutAmount\<close> the number whose decimal string is stored in the
  session's metadata.
\<close>

record checkout_params =
  unit_amount :: number
  application_fee_amount :: number
  metadata_instructorPayoutAmount :: number

definition checkout_lesson :: "number \<Rightarrow> checkout_params" where
  "checkout_lesson price =
     (let priceInCents = Math_round (js_mul price (Fin 100));
          split = calculateFees priceInCents;
          priceWithFees =
            js_div (calculatePriceWithStripeFees (js_mul price (Fin 100))) (Fin 100);
          priceWithFeesInCents = Math_round (js_mul priceWithFees (Fin 100))
      in \<lparr>unit_amount = priceWithFeesInCents,
          application_fee_amount = platformFee split,
          metadata_instructorPayoutAmount = instructorAmount split\<rparr>)"

section \<open>Errors\<close>

text \<open>
  A call of a JavaScript function returns a value or throws; its outcome is a value of
  \<open>error + 'a\<close>, with \<open>Inl\<close> for a thrown error. Neither \<^verbatim>\<open>calculateFees\<close> nor
  \<^verbatim>\<open>calculatePriceWithStripeFees\<close> contains a \<^verbatim>\<open>throw\<close> or a check of its
  argument, and the arithmetic operators and \<^verbatim>\<open>Math.round\<close> do not throw on numbers:
  the two outcomes below have no \<open>Inl\<close> branch, and what the functions do with an invalid
  amount is what they return for it. The one mark of a failed computation a returned number
  can carry is NaN.
\<close>

datatype error = InvalidAmount

definition call_calculateFees :: "number \<Rightarrow> error + fees" where
  "call_calculateFees amount = Inr (calculateFees amount)"

definition call_calculatePriceWithStripeFees :: "number \<Rightarrow> error + number" where
  "call_calculatePriceWithStripeFees basePrice = Inr (calculatePriceWithStripeFees basePrice)"

text \<open>The inputs the specification calls invalid: negative, or not an integer.\<close>

fun is_integer :: "number \<Rightarrow> bool" where
  "is_integer (Fin a) = (of_int \<lfloor>a\<rfloor> = a)"
| "is_integer _ = False"

fun is_negative :: "number \<Rightarrow> bool" where
  "is_negative (Fin a) = (a < 0)"
| "is_negative NegInf = True"
| "is_negative _ = False"

definition invalid_amount :: "number \<Rightarrow> bool" where
  "invalid_amount x = (is_negative x \<or> \<not> is_integer x)"

section \<open>The counterparty's share, rounded on its own\<close>

text \<open>
  For comparison with \<open>calculateFees\<close>: three readings of a counterparty's share that is
  its own rounded analytic value, with the platform's share the rest of the amount. None of
  them is in the code.

  The first is the rounded \<open>INSTRUCTOR_PERCENTAGE\<close> of the amount.
\<close>

definition counterpartyShare_of_amount :: "number \<Rightarrow> number" where
  "counterpartyShare_of_amount amount =
     Math_round (js_div (js_mul amount INSTRUCTOR_PERCENTAGE) (Fin 100))"

text \<open>
  The second follows the steps \<open>calculateFees\<close> applies to the platform's share, with
  \<open>INSTRUCTOR_PERCENTAGE\<close> in the place of \<open>PLATFORM_FEE_PERCENTAGE\<close>.
\<close>

definition splitFees_platform_absorbs :: "number \<Rightarrow> fees" where
  "splitFees_platform_absorbs amount =
     (let stripeFeePercentage =
            Math_round (js_div (js_mul amount STRIPE_PERCENTAGE_FEE) (Fin 100));
          totalStripeFee = js_add stripeFeePercentage STRIPE_FIXED_FEE_CENTS;
          basePrice =
            Math_round
              (js_sub (js_div amount (js_add (Fin 1) (js_div STRIPE_PERCENTAGE_FEE (Fin 100))))
                 STRIPE_FIXED_FEE_CENTS);
          baseCounterpartyShare =
            Math_round (js_div (js_mul basePrice INSTRUCTOR_PERCENTAGE) (Fin 100));
          counterpartyProportion = js_div baseCounterpartyShare basePrice;
          counterpartyShareOfStripeFee =
            Math_round (js_mul totalStripeFee counterpartyProportion);
          counterpartyShare = js_add baseCounterpartyShare counterpartyShareOfStripeFee
      in \<lparr>platformFee = js_sub amount counterpartyShare,
          instructorAmount = counterpartyShare\<rparr>)"

text \<open>
  The third is the share in exact arithmetic, rounded once at the end: the amount minus 15
  percent of the sum of the implied base price \<open>a / 1.029 - 30\<close> and the processor's fee
  \<open>a * 0.029 + 30\<close>, none of them rounded.
\<close>

definition counterpartyShare_exact :: "rat \<Rightarrow> int" where
  "counterpartyShare_exact a =
     \<lfloor>a - 15 / 100 * ((a / (1 + 29 / 1000) - 30) + (a * (29 / 1000) + 30)) + 1 / 2\<rfloor>"

section \<open>Properties of the rounding\<close>

lemma pow2_powi: "pow2 e = 2 powi e"
  by (simp add: pow2_def power_int_def power_inverse inverse_eq_divide power_one_over)

lemma pow2_pos: "0 < pow2 e"
  by (simp add: pow2_powi)

lemma pow2_add: "pow2 (a + b) = pow2 a * pow2 b"
  by (simp add: pow2_powi power_int_add)

lemma pow2_diff: "pow2 (a - b) = pow2 a / pow2 b"
  by (simp add: pow2_powi power_int_diff)

lemma pow2_mono: "a \<le> b \<Longrightarrow> pow2 a \<le> pow2 b"
  by (simp add: pow2_powi power_int_increasing)

lemma pow2_strict_mono: "a < b \<Longrightarrow> pow2 a < pow2 b"
  by (simp add: pow2_powi power_int_strict_increasing)

lemma pow2_less_iff: "pow2 a < pow2 b \<longleftrightarrow> a < b"
  by (metis pow2_mono pow2_strict_mono not_less)

lemma pow2_nat: "pow2 (int n) = 2 ^ n"
  by (simp add: pow2_def)

lemma pow2_Suc: "pow2 (e + 1) = 2 * pow2 e"
  by (simp add: pow2_powi power_int_add)

lemma ilog2_bounds:
  assumes "0 < x"
  shows "pow2 (ilog2 x) \<le> x \<and> x < pow2 (ilog2 x + 1)"
proof -
  obtain p q where pq: "quotient_of x = (p, q)" by (cases "quotient_of x")
  have q: "0 < q" using pq quotient_of_denom_pos by blast
  have x: "x = of_int p / of_int q" using pq quotient_of_div by blast
  have p: "0 < p" using assms q x by (simp add: zero_less_divide_iff)
  define d where "d = bitlen p - bitlen q"
  have bp: "1 \<le> bitlen p" and bq: "1 \<le> bitlen q"
    using p q by (simp_all add: bitlen_alt_def)
  have p1: "pow2 (bitlen p - 1) \<le> of_int p"
  proof -
    have "(2::int) ^ nat (bitlen p - 1) \<le> p" using bitlen_bounds [OF p] by simp
    then have "(of_int ((2::int) ^ nat (bitlen p - 1)) :: rat) \<le> of_int p"
      by (simp only: of_int_le_iff)
    then show ?thesis using bp by (simp add: pow2_def)
  qed
  have p2: "of_int p < pow2 (bitlen p)"
  proof -
    have "p < (2::int) ^ nat (bitlen p)" using bitlen_bounds [OF p] by simp
    then have "(of_int p :: rat) < of_int ((2::int) ^ nat (bitlen p))"
      by (simp only: of_int_less_iff)
    then show ?thesis using bp by (simp add: pow2_def)
  qed
  have q1: "pow2 (bitlen q - 1) \<le> of_int q"
  proof -
    have "(2::int) ^ nat (bitlen q - 1) \<le> q" using bitlen_bounds [OF q] by simp
    then have "(of_int ((2::int) ^ nat (bitlen q - 1)) :: rat) \<le> of_int q"
      by (simp only: of_int_le_iff)
    then show ?thesis using bq by (simp add: pow2_def)
  qed
  have q2: "of_int q < pow2 (bitlen q)"
  proof -
    have "q < (2::int) ^ nat (bitlen q)" using bitlen_bounds [OF q] by simp
    then have "(of_int q :: rat) < of_int ((2::int) ^ nat (bitlen q))"
      by (simp only: of_int_less_iff)
    then show ?thesis using bq by (simp add: pow2_def)
  qed
  have qpos: "(0::rat) < of_int q" using q by simp
  have lo: "pow2 (d - 1) \<le> x"
  proof -
    have "pow2 (d - 1) * of_int q \<le> pow2 (d - 1) * pow2 (bitlen q)"
      using q2 pow2_pos [of "d - 1"] by (simp add: less_imp_le)
    also have "\<dots> = pow2 (bitlen p - 1)"
      by (simp add: d_def pow2_add [symmetric])
    also have "\<dots> \<le> of_int p" by (rule p1)
    finally show ?thesis using qpos by (simp add: x pos_le_divide_eq)
  qed
  have hi: "x < pow2 (d + 1)"
  proof -
    have "of_int p < pow2 (bitlen p)" by (rule p2)
    also have "\<dots> = pow2 (d + 1) * pow2 (bitlen q - 1)"
      by (simp add: d_def pow2_add [symmetric])
    also have "\<dots> \<le> pow2 (d + 1) * of_int q"
      using q1 pow2_pos [of "d + 1"] by simp
    finally show ?thesis using qpos by (simp add: x pos_divide_less_eq)
  qed
  have il: "ilog2 x = (if pow2 d \<le> x then d else d - 1)"
    by (simp add: ilog2_def pq d_def Let_def)
  show ?thesis
  proof (cases "pow2 d \<le> x")
    case True
    then show ?thesis using il hi by simp
  next
    case False
    then show ?thesis using il lo by simp
  qed
qed

lemma ilog2_unique:
  assumes "pow2 e \<le> x" "x < pow2 (e + 1)"
  shows "ilog2 x = e"
proof -
  have x: "0 < x" using assms(1) pow2_pos [of e] by simp
  note b = ilog2_bounds [OF x]
  have "pow2 e < pow2 (ilog2 x + 1)" using assms(1) b by simp
  then have 1: "e < ilog2 x + 1" by (simp add: pow2_less_iff)
  have "pow2 (ilog2 x) < pow2 (e + 1)" using assms(2) b by simp
  then have 2: "ilog2 x < e + 1" by (simp add: pow2_less_iff)
  from 1 2 show ?thesis by simp
qed

lemma ilog2_mono:
  assumes "0 < x" "x \<le> y"
  shows "ilog2 x \<le> ilog2 y"
proof -
  have y: "0 < y" using assms by simp
  have "pow2 (ilog2 x) \<le> x" using ilog2_bounds [OF assms(1)] by simp
  also have "x \<le> y" by fact
  also have "y < pow2 (ilog2 y + 1)" using ilog2_bounds [OF y] by simp
  finally have "ilog2 x < ilog2 y + 1" by (simp add: pow2_less_iff)
  then show ?thesis by simp
qed

lemma rhe_err: "\<bar>of_int (round_half_even t) - t\<bar> \<le> 1 / 2"
proof -
  have "of_int \<lfloor>t\<rfloor> \<le> t" "t < of_int \<lfloor>t\<rfloor> + 1" by linarith+
  then show ?thesis
    by (auto simp add: round_half_even_def Let_def abs_le_iff)
qed

lemma rhe_of_int: "round_half_even (of_int n) = n"
  by (simp add: round_half_even_def)

lemma rhe_unique:
  assumes "\<bar>t - of_int m\<bar> < 1 / 2"
  shows "round_half_even t = m"
proof -
  have "\<bar>of_int (round_half_even t) - t\<bar> \<le> 1 / 2" by (rule rhe_err)
  with assms have "\<bar>(of_int (round_half_even t) :: rat) - of_int m\<bar> < 1" by linarith
  then have "\<bar>(of_int (round_half_even t - m) :: rat)\<bar> < 1" by simp
  then have "\<bar>round_half_even t - m\<bar> < 1"
    by (metis of_int_abs of_int_less_1_iff)
  then show ?thesis by simp
qed

lemma rhe_mono:
  assumes "s \<le> t"
  shows "round_half_even s \<le> round_half_even t"
proof -
  have fl: "\<lfloor>s\<rfloor> \<le> \<lfloor>t\<rfloor>" using assms by (rule floor_mono)
  have s1: "round_half_even s \<le> \<lfloor>s\<rfloor> + 1"
    by (simp add: round_half_even_def Let_def)
  have t0: "\<lfloor>t\<rfloor> \<le> round_half_even t"
    by (simp add: round_half_even_def Let_def)
  show ?thesis
  proof (cases "\<lfloor>s\<rfloor> = \<lfloor>t\<rfloor>")
    case True
    then show ?thesis using assms
      by (auto simp add: round_half_even_def Let_def)
  next
    case False
    then have "\<lfloor>s\<rfloor> + 1 \<le> \<lfloor>t\<rfloor>" using fl by simp
    then show ?thesis using s1 t0 by linarith
  qed
qed

lemma rhe_le: "t \<le> of_int m \<Longrightarrow> round_half_even t \<le> m"
  using rhe_mono [of t "of_int m"] by (simp add: rhe_of_int)

lemma rhe_ge: "of_int m \<le> t \<Longrightarrow> m \<le> round_half_even t"
  using rhe_mono [of "of_int m" t] by (simp add: rhe_of_int)

lemma rhe_minus: "round_half_even (- t) = - round_half_even t"
proof (cases "t = of_int \<lfloor>t\<rfloor>")
  case True
  then obtain n where "t = of_int n" ..
  then show ?thesis by (simp add: rhe_of_int flip: of_int_minus)
next
  case False
  have nz: "t \<notin> \<int>"
  proof
    assume "t \<in> \<int>"
    then have "of_int \<lfloor>t\<rfloor> = t" by (rule of_int_floor)
    with False show False by simp
  qed
  have f: "\<lfloor>- t\<rfloor> = - \<lfloor>t\<rfloor> - 1"
    using nz False by (simp add: floor_minus ceiling_altdef)
  show ?thesis
    unfolding round_half_even_def Let_def f
    by (auto simp add: algebra_simps)
qed

lemma pow2_split: "b \<le> a \<Longrightarrow> pow2 a = of_int (2 ^ nat (a - b)) * pow2 b"
proof -
  assume "b \<le> a"
  then have "pow2 (int (nat (a - b))) = pow2 (a - b)" by simp
  then have "(2::rat) ^ nat (a - b) = pow2 (a - b)" by (simp only: pow2_nat)
  moreover have "pow2 a = pow2 (a - b) * pow2 b" by (simp add: pow2_add [symmetric])
  ultimately show ?thesis by simp
qed

lemma ulp_exp_minus: "ulp_exp (- x) = ulp_exp x"
  by (simp add: ulp_exp_def)

lemma rnd_minus: "rnd (- x) = - rnd x"
  by (simp add: rnd_def ulp_exp_minus rhe_minus)

lemma rnd_le_grid:
  assumes "x \<le> of_int m * pow2 (ulp_exp x)"
  shows "rnd x \<le> of_int m * pow2 (ulp_exp x)"
proof (cases "x = 0")
  case True
  then show ?thesis using assms by (simp add: rnd_def)
next
  case False
  have "x / pow2 (ulp_exp x) \<le> of_int m"
    using assms pow2_pos [of "ulp_exp x"] by (simp add: pos_divide_le_eq)
  then have "round_half_even (x / pow2 (ulp_exp x)) \<le> m" by (rule rhe_le)
  then have "(of_int (round_half_even (x / pow2 (ulp_exp x))) :: rat) \<le> of_int m"
    by (simp only: of_int_le_iff)
  then show ?thesis using False pow2_pos [of "ulp_exp x"] by (simp add: rnd_def)
qed

lemma rnd_ge_grid:
  assumes "of_int m * pow2 (ulp_exp x) \<le> x"
  shows "of_int m * pow2 (ulp_exp x) \<le> rnd x"
proof (cases "x = 0")
  case True
  then show ?thesis using assms by (simp add: rnd_def)
next
  case False
  have "of_int m \<le> x / pow2 (ulp_exp x)"
    using assms pow2_pos [of "ulp_exp x"] by (simp add: pos_le_divide_eq)
  then have "m \<le> round_half_even (x / pow2 (ulp_exp x))" by (rule rhe_ge)
  then have "(of_int m :: rat) \<le> of_int (round_half_even (x / pow2 (ulp_exp x)))"
    by (simp only: of_int_le_iff)
  then show ?thesis using False pow2_pos [of "ulp_exp x"] by (simp add: rnd_def)
qed

lemma rnd_nonneg: "0 \<le> x \<Longrightarrow> 0 \<le> rnd x"
  using rnd_ge_grid [of 0 x] by simp

lemma rnd_nonpos: "x \<le> 0 \<Longrightarrow> rnd x \<le> 0"
  using rnd_le_grid [of x 0] by simp

lemma rnd_mono_pos:
  assumes "0 < x" "x \<le> y"
  shows "rnd x \<le> rnd y"
proof -
  have y: "0 < y" using assms by simp
  define ex where "ex = ilog2 x"
  define ey where "ey = ilog2 y"
  have exy: "ex \<le> ey" unfolding ex_def ey_def using assms by (rule ilog2_mono)
  have ux: "ulp_exp x = max (ex - 52) (- 1074)"
    using assms by (simp add: ulp_exp_def ex_def)
  have uy: "ulp_exp y = max (ey - 52) (- 1074)"
    using y by (simp add: ulp_exp_def ey_def)
  have uxy: "ulp_exp x \<le> ulp_exp y" using exy ux uy by simp
  have xb: "x < pow2 (ex + 1)" using ilog2_bounds [OF assms(1)] by (simp add: ex_def)
  have yb: "pow2 ey \<le> y" using ilog2_bounds [OF y] by (simp add: ey_def)
  show ?thesis
  proof (cases "ulp_exp x = ulp_exp y")
    case True
    have "x / pow2 (ulp_exp y) \<le> y / pow2 (ulp_exp y)"
      using assms(2) pow2_pos [of "ulp_exp y"] by (simp add: divide_right_mono)
    then have "round_half_even (x / pow2 (ulp_exp y)) \<le> round_half_even (y / pow2 (ulp_exp y))"
      by (rule rhe_mono)
    then have "(of_int (round_half_even (x / pow2 (ulp_exp y))) :: rat)
        \<le> of_int (round_half_even (y / pow2 (ulp_exp y)))"
      by (simp only: of_int_le_iff)
    then show ?thesis using assms y True pow2_pos [of "ulp_exp y"]
      by (simp add: rnd_def)
  next
    case False
    then have lt: "ulp_exp x < ulp_exp y" using uxy by simp
    then have uy': "ulp_exp y = ey - 52" using ux uy by (simp add: max_def split: if_splits)
    have exlt: "ex < ey" using lt ux uy by (simp add: max_def split: if_splits)
    define B where "B = max (ex + 1) (ulp_exp x)"
    have B1: "ulp_exp x \<le> B" and B2: "ex + 1 \<le> B" by (simp_all add: B_def)
    have B3: "B \<le> ey" using exlt lt uy' by (simp add: B_def)
    have "x \<le> pow2 B" using xb pow2_mono [OF B2] by simp
    then have "x \<le> of_int (2 ^ nat (B - ulp_exp x)) * pow2 (ulp_exp x)"
      using pow2_split [OF B1] by simp
    then have "rnd x \<le> of_int (2 ^ nat (B - ulp_exp x)) * pow2 (ulp_exp x)"
      by (rule rnd_le_grid)
    then have 1: "rnd x \<le> pow2 B" using pow2_split [OF B1] by simp
    have le: "ulp_exp y \<le> ey" using uy' by simp
    have "of_int (2 ^ nat (ey - ulp_exp y)) * pow2 (ulp_exp y) \<le> y"
      using yb pow2_split [OF le] by simp
    then have "of_int (2 ^ nat (ey - ulp_exp y)) * pow2 (ulp_exp y) \<le> rnd y"
      by (rule rnd_ge_grid)
    then have 2: "pow2 ey \<le> rnd y" using pow2_split [OF le] by simp
    from 1 2 pow2_mono [OF B3] show ?thesis by simp
  qed
qed

lemma rnd_mono:
  assumes "x \<le> y"
  shows "rnd x \<le> rnd y"
proof -
  consider "0 < x" | "x \<le> 0" "0 \<le> y" | "y < 0" by linarith
  then show ?thesis
  proof cases
    case 1
    then show ?thesis using assms by (rule rnd_mono_pos)
  next
    case 2
    then show ?thesis using rnd_nonpos [of x] rnd_nonneg [of y] by simp
  next
    case 3
    then have "0 < - y" "- y \<le> - x" using assms by simp_all
    then have "rnd (- y) \<le> rnd (- x)" by (rule rnd_mono_pos)
    then show ?thesis by (simp add: rnd_minus)
  qed
qed

lemma fl_not_NaN: "fl x \<noteq> NaN"
  by (simp add: fl_def Let_def)

lemma fl_mono:
  assumes "x \<le> y"
  shows "js_le (fl x) (fl y)"
proof -
  have "rnd x \<le> rnd y" using assms by (rule rnd_mono)
  moreover have "- pow2 1024 < pow2 1024" using pow2_pos [of 1024] by simp
  ultimately show ?thesis by (auto simp add: fl_def Let_def)
qed

lemma ilog2_less:
  assumes "0 < x" "x < pow2 b"
  shows "ilog2 x < b"
proof -
  have "pow2 (ilog2 x) \<le> x" using ilog2_bounds [OF assms(1)] by simp
  with assms(2) have "pow2 (ilog2 x) < pow2 b" by simp
  then show ?thesis by (simp add: pow2_less_iff)
qed

lemma ilog2_ge:
  assumes "pow2 b \<le> x"
  shows "b \<le> ilog2 x"
proof -
  have x: "0 < x" using assms pow2_pos [of b] by simp
  have "x < pow2 (ilog2 x + 1)" using ilog2_bounds [OF x] by simp
  with assms have "pow2 b < pow2 (ilog2 x + 1)" by simp
  then show ?thesis by (simp add: pow2_less_iff)
qed

lemma rnd_grid:
  assumes "ulp_exp x \<le> k" and that: "x = of_int m * pow2 k"
  shows "rnd x = x"
proof (cases "x = 0")
  case True
  then show ?thesis by (simp add: rnd_def)
next
  case False
  define u where "u = pow2 (ulp_exp x)"
  define K :: int where "K = 2 ^ nat (k - ulp_exp x)"
  have u: "0 < u" by (simp add: u_def pow2_pos)
  have pk: "pow2 k = of_int K * u"
    unfolding K_def u_def using assms(1) by (rule pow2_split)
  have "x / u = of_int m * (of_int K * u) / u" by (simp only: that pk)
  also have "\<dots> = of_int (m * K)" using u by simp
  finally have "round_half_even (x / u) = m * K" by (simp only: rhe_of_int)
  then have "rnd x = of_int (m * K) * u"
    using False by (simp add: rnd_def u_def)
  also have "\<dots> = of_int m * (of_int K * u)" by simp
  also have "\<dots> = x" by (simp only: that pk)
  finally show ?thesis .
qed

lemma rnd_exact:
  assumes "- 1074 \<le> k" "\<bar>m\<bar> < 2 ^ 53"
  shows "rnd (of_int m * pow2 k) = of_int m * pow2 k"
proof (cases "m = 0")
  case True
  then show ?thesis by (simp add: rnd_def)
next
  case False
  define x :: rat where "x = of_int m * pow2 k"
  have "(of_int \<bar>m\<bar> :: rat) < of_int (2 ^ 53)" using assms(2) by (simp only: of_int_less_iff)
  then have m: "\<bar>of_int m :: rat\<bar> < pow2 53" by (simp add: pow2_def)
  have ax: "\<bar>x\<bar> = \<bar>of_int m\<bar> * pow2 k"
    using pow2_pos [of k] by (simp add: x_def abs_mult)
  have pos: "0 < \<bar>x\<bar>" using False pow2_pos [of k] by (simp add: x_def)
  have "\<bar>x\<bar> < pow2 53 * pow2 k" unfolding ax using m pow2_pos [of k] by simp
  then have "\<bar>x\<bar> < pow2 (53 + k)" by (simp add: pow2_add)
  then have "ilog2 \<bar>x\<bar> < 53 + k" using pos by (intro ilog2_less)
  then have "ulp_exp x \<le> k" using assms(1) by (simp add: ulp_exp_def)
  then have "rnd x = x" by (rule rnd_grid [where k = k and m = m]) (simp add: x_def)
  then show ?thesis by (simp add: x_def)
qed

lemma fl_exact:
  assumes "- 1074 \<le> k" "k \<le> 970" "\<bar>m\<bar> < 2 ^ 53"
  shows "fl (of_int m * pow2 k) = Fin (of_int m * pow2 k)"
proof -
  have "(of_int \<bar>m\<bar> :: rat) < of_int (2 ^ 53)" using assms(3) by (simp only: of_int_less_iff)
  then have m: "\<bar>of_int m :: rat\<bar> < pow2 53" by (simp add: pow2_def)
  have "\<bar>of_int m * pow2 k\<bar> = \<bar>of_int m\<bar> * pow2 k"
    using pow2_pos [of k] by (simp add: abs_mult)
  also have "\<dots> < pow2 53 * pow2 k" using m pow2_pos [of k] by simp
  also have "\<dots> = pow2 (53 + k)" by (simp add: pow2_add)
  also have "\<dots> \<le> pow2 1024" using assms(2) by (intro pow2_mono) simp
  finally have "\<bar>of_int m * pow2 k\<bar> < pow2 1024" .
  then have "\<not> pow2 1024 \<le> of_int m * pow2 k" "\<not> of_int m * pow2 k \<le> - pow2 1024"
    by linarith+
  then show ?thesis
    by (simp add: fl_def Let_def rnd_exact [OF assms(1,3)])
qed

lemma fl_int:
  assumes "\<bar>n\<bar> \<le> 2 ^ 53"
  shows "fl (of_int n) = Fin (of_int n)"
proof (cases "\<bar>n\<bar> < 2 ^ 53")
  case True
  then show ?thesis using fl_exact [of 0 n] by (simp add: pow2_def)
next
  case False
  then have "n = 2 ^ 53 \<or> n = - (2 ^ 53)" using assms by linarith
  then show ?thesis
    using fl_exact [of 53 1] fl_exact [of 53 "- 1"] by (auto simp add: pow2_def)
qed

lemma rnd_err:
  assumes "x \<noteq> 0"
  shows "\<bar>rnd x - x\<bar> \<le> pow2 (ulp_exp x) / 2"
proof -
  define u where "u = pow2 (ulp_exp x)"
  have u: "0 < u" by (simp add: u_def pow2_pos)
  have "\<bar>of_int (round_half_even (x / u)) - x / u\<bar> \<le> 1 / 2" by (rule rhe_err)
  then have "\<bar>of_int (round_half_even (x / u)) - x / u\<bar> * u \<le> 1 / 2 * u"
    using u by (simp only: mult_le_cancel_right_pos)
  moreover have "\<bar>of_int (round_half_even (x / u)) - x / u\<bar> * u
      = \<bar>of_int (round_half_even (x / u)) * u - x\<bar>"
  proof -
    have "(of_int (round_half_even (x / u)) - x / u) * u
        = of_int (round_half_even (x / u)) * u - x"
      using u by (simp add: field_simps)
    then have "\<bar>of_int (round_half_even (x / u)) * u - x\<bar>
        = \<bar>of_int (round_half_even (x / u)) - x / u\<bar> * \<bar>u\<bar>"
      by (simp only: abs_mult [symmetric])
    then show ?thesis using u by simp
  qed
  ultimately show ?thesis using assms by (simp add: rnd_def u_def)
qed

lemma rnd_cert:
  assumes "pow2 e \<le> \<bar>x\<bar>" "\<bar>x\<bar> < pow2 (e + 1)" "u = max (e - 52) (- 1074)"
    and "\<bar>x / pow2 u - of_int m\<bar> < 1 / 2"
  shows "rnd x = of_int m * pow2 u"
proof -
  have x: "x \<noteq> 0" using assms(1) pow2_pos [of e] by auto
  have "ilog2 \<bar>x\<bar> = e" using assms(1,2) by (rule ilog2_unique)
  then have "ulp_exp x = u" by (simp add: ulp_exp_def assms(3))
  moreover have "round_half_even (x / pow2 u) = m" using assms(4) by (rule rhe_unique)
  ultimately show ?thesis using x by (simp add: rnd_def)
qed

lemma fl_cert:
  assumes "pow2 e \<le> \<bar>x\<bar>" "\<bar>x\<bar> < pow2 (e + 1)" "- 1074 \<le> e" "e \<le> 1022"
    and "u = max (e - 52) (- 1074)"
    and "\<bar>x / pow2 u - of_int m\<bar> < 1 / 2"
    and "y = of_int m * pow2 u"
  shows "fl x = Fin y"
proof -
  note u = assms(5)
  have r: "rnd x = y" using rnd_cert [OF assms(1,2) u assms(6)] assms(7) by simp
  have x: "x \<noteq> 0" using assms(1) pow2_pos [of e] by auto
  have ue: "ulp_exp x = u"
    using ilog2_unique [OF assms(1,2)] by (simp add: ulp_exp_def u)
  have "u \<le> e + 1" using u assms(3) by simp
  then have "pow2 u \<le> pow2 (e + 1)" by (rule pow2_mono)
  moreover have "\<bar>y - x\<bar> \<le> pow2 u / 2" using rnd_err [OF x] r ue by simp
  ultimately have "\<bar>y\<bar> < pow2 (e + 1) + pow2 (e + 1)"
    using assms(2) pow2_pos [of u] by linarith
  also have "\<dots> = pow2 (e + 2)" using pow2_Suc [of "e + 1"] by (simp add: add.commute)
  also have "\<dots> \<le> pow2 1024" using assms(4) by (intro pow2_mono) simp
  finally have "\<bar>y\<bar> < pow2 1024" .
  then have "\<not> pow2 1024 \<le> y" "\<not> y \<le> - pow2 1024" by linarith+
  then show ?thesis by (simp add: fl_def Let_def r)
qed

lemma pow2_numeral: "pow2 (numeral n) = 2 ^ numeral n"
  by (simp add: pow2_def)

lemma pow2_neg_numeral: "pow2 (- numeral n) = 1 / 2 ^ numeral n"
  by (simp add: pow2_def)

lemma pow2_0: "pow2 0 = 1"
  by (simp add: pow2_def)

lemma pow2_1: "pow2 1 = 2"
  by (simp add: pow2_def)

lemma pow2_m1: "pow2 (- 1) = 1 / 2"
  by (simp add: pow2_def)

lemmas pow2_num = pow2_numeral pow2_neg_numeral pow2_0 pow2_1 pow2_m1

section \<open>Evaluating the operations at given numbers\<close>

text \<open>
  Each rule reduces one operation on two given numbers to inequalities between rational
  constants: the exponent \<open>e\<close> of the exact result, the exponent \<open>u\<close> of its unit in
  the last place and the significand \<open>m\<close> it rounds to.
\<close>

lemma js_add_cert:
  assumes "pow2 e \<le> \<bar>a + b\<bar>" "\<bar>a + b\<bar> < pow2 (e + 1)" "- 1074 \<le> e" "e \<le> 1022"
    and "u = max (e - 52) (- 1074)"
    and "\<bar>(a + b) / pow2 u - of_int m\<bar> < 1 / 2"
    and "y = of_int m * pow2 u"
  shows "js_add (Fin a) (Fin b) = Fin y"
  using fl_cert [OF assms] by simp

lemma js_sub_cert:
  assumes "pow2 e \<le> \<bar>a - b\<bar>" "\<bar>a - b\<bar> < pow2 (e + 1)" "- 1074 \<le> e" "e \<le> 1022"
    and "u = max (e - 52) (- 1074)"
    and "\<bar>(a - b) / pow2 u - of_int m\<bar> < 1 / 2"
    and "y = of_int m * pow2 u"
  shows "js_sub (Fin a) (Fin b) = Fin y"
  using fl_cert [OF assms] by (simp add: js_sub_def)

lemma js_mul_cert:
  assumes "pow2 e \<le> \<bar>a * b\<bar>" "\<bar>a * b\<bar> < pow2 (e + 1)" "- 1074 \<le> e" "e \<le> 1022"
    and "u = max (e - 52) (- 1074)"
    and "\<bar>a * b / pow2 u - of_int m\<bar> < 1 / 2"
    and "y = of_int m * pow2 u"
  shows "js_mul (Fin a) (Fin b) = Fin y"
  using fl_cert [OF assms] by simp

lemma js_div_cert:
  assumes "pow2 e \<le> \<bar>a / b\<bar>" "\<bar>a / b\<bar> < pow2 (e + 1)" "- 1074 \<le> e" "e \<le> 1022"
    and "u = max (e - 52) (- 1074)"
    and "\<bar>a / b / pow2 u - of_int m\<bar> < 1 / 2"
    and "y = of_int m * pow2 u"
  shows "js_div (Fin a) (Fin b) = Fin y"
proof -
  have "b \<noteq> 0" using assms(1) pow2_pos [of e] by auto
  then show ?thesis using fl_cert [OF assms] by simp
qed

lemma fl_0: "fl 0 = Fin 0"
  using pow2_pos [of 1024] by (simp add: fl_def rnd_def Let_def)

lemma js_add_zero: "a + b = 0 \<Longrightarrow> js_add (Fin a) (Fin b) = Fin 0"
  by (simp add: fl_0)

lemma js_sub_zero: "a - b = 0 \<Longrightarrow> js_sub (Fin a) (Fin b) = Fin 0"
  by (simp add: js_sub_def fl_0)

lemma js_mul_zero: "a * b = 0 \<Longrightarrow> js_mul (Fin a) (Fin b) = Fin 0"
  by (auto simp add: fl_0)

lemma js_div_zero: "a = 0 \<Longrightarrow> b \<noteq> 0 \<Longrightarrow> js_div (Fin a) (Fin b) = Fin 0"
  by (simp add: fl_0)

lemma Math_round_cert:
  assumes "of_int n \<le> a + 1 / 2" "a + 1 / 2 < of_int n + 1" "y = of_int n"
  shows "Math_round (Fin a) = Fin y"
proof -
  have "\<lfloor>a + 1 / 2\<rfloor> = n" using assms(1,2) by (simp add: floor_unique)
  then show ?thesis using assms(3) by simp
qed

lemma js_div_0_0: "js_div (Fin 0) (Fin 0) = NaN"
  by simp

lemma js_mul_NaN: "js_mul x NaN = NaN"
  by (cases x) simp_all

lemma js_add_NaN: "js_add x NaN = NaN"
  by (cases x) simp_all

lemma js_sub_NaN: "js_sub x NaN = NaN"
  by (cases x) (simp_all add: js_sub_def)

lemma Math_round_NaN: "Math_round NaN = NaN"
  by simp

lemmas js_NaN_simps = js_div_0_0 js_mul_NaN js_add_NaN js_sub_NaN Math_round_NaN

section \<open>The functions at given amounts\<close>

subsection \<open>The constants\<close>

lemma STRIPE_PERCENTAGE_FEE_value:
  "STRIPE_PERCENTAGE_FEE = Fin (6530219459687219 / 2251799813685248)"
  unfolding STRIPE_PERCENTAGE_FEE_def
  by (rule fl_cert [where e = 1 and u = "- 51" and m = 6530219459687219])
     (simp_all add: pow2_num)

lemma fee_fraction_value:
  "js_div (Fin (6530219459687219 / 2251799813685248)) (Fin 100) =
     Fin (1044835113549955 / 36028797018963968)"
  by (rule js_div_cert [where e = "- 6" and u = "- 58" and m = 8358680908399640])
     (simp_all add: pow2_num)

lemma one_minus_fee_fraction_value:
  "js_sub (Fin 1) (Fin (1044835113549955 / 36028797018963968)) =
     Fin (8745990476353503 / 9007199254740992)"
  by (rule js_sub_cert [where e = "- 1" and u = "- 53" and m = 8745990476353503])
     (simp_all add: pow2_num)

lemma one_plus_fee_fraction_value:
  "js_add (Fin 1) (Fin (1044835113549955 / 36028797018963968)) =
     Fin (289637751035265 / 281474976710656)"
  by (rule js_add_cert [where e = 0 and u = "- 52" and m = 4634204016564240])
     (simp_all add: pow2_num)

subsection \<open>calculateFees at 31\<close>

lemma fees_31_step_1:
  "js_mul (Fin 31) (Fin (6530219459687219 / 2251799813685248)) =
     Fin (6326150101571993 / 70368744177664)"
  by (rule js_mul_cert [where e = 6 and u = "- 46" and m = 6326150101571993])
     (simp_all add: pow2_num)

lemma fees_31_step_2:
  "js_div (Fin (6326150101571993 / 70368744177664)) (Fin 100) =
     Fin (8097472130012151 / 9007199254740992)"
  by (rule js_div_cert [where e = "- 1" and u = "- 53" and m = 8097472130012151])
     (simp_all add: pow2_num)

lemma fees_31_step_3:
  "Math_round (Fin (8097472130012151 / 9007199254740992)) = Fin 1"
  by (rule Math_round_cert [where n = 1]) simp_all

lemma fees_31_step_4:
  "js_add (Fin 1) (Fin 30) = Fin 31"
  by (rule js_add_cert [where e = 4 and u = "- 48" and m = 8725724278030336])
     (simp_all add: pow2_num)

lemma fees_31_step_5:
  "js_div (Fin 31) (Fin (289637751035265 / 281474976710656)) =
     Fin (8479809794004215 / 281474976710656)"
  by (rule js_div_cert [where e = 4 and u = "- 48" and m = 8479809794004215])
     (simp_all add: pow2_num)

lemma fees_31_step_6:
  "js_sub (Fin (8479809794004215 / 281474976710656)) (Fin 30) =
     Fin (35560492684535 / 281474976710656)"
  by (rule js_sub_cert [where e = "- 3" and u = "- 55" and m = 4551743063620480])
     (simp_all add: pow2_num)

lemma fees_31_step_7:
  "Math_round (Fin (35560492684535 / 281474976710656)) = Fin 0"
  by (rule Math_round_cert [where n = 0]) simp_all

lemma fees_31_step_8:
  "js_mul (Fin 0) (Fin 15) = Fin 0"
  by (rule js_mul_zero) simp_all

lemma fees_31_step_9:
  "js_div (Fin 0) (Fin 100) = Fin 0"
  by (rule js_div_zero) simp_all

lemma fees_31_step_10:
  "Math_round (Fin 0) = Fin 0"
  by (rule Math_round_cert [where n = 0]) simp_all

lemma basePrice_of_31:
  "basePrice_of (Fin 31) = Fin 0"
  by (simp only: basePrice_of_def STRIPE_FIXED_FEE_CENTS_def
    STRIPE_PERCENTAGE_FEE_value fee_fraction_value one_plus_fee_fraction_value fees_31_step_5
    fees_31_step_6 fees_31_step_7)

lemma calculateFees_31:
  "calculateFees (Fin 31) =
     \<lparr>platformFee = NaN, instructorAmount = NaN\<rparr>"
  by (simp only: calculateFees_def
    Let_def STRIPE_FIXED_FEE_CENTS_def PLATFORM_FEE_PERCENTAGE_def
    STRIPE_PERCENTAGE_FEE_value fees_31_step_1 fees_31_step_2 fees_31_step_3 fees_31_step_4
    fee_fraction_value one_plus_fee_fraction_value fees_31_step_5 fees_31_step_6
    fees_31_step_7 fees_31_step_8 fees_31_step_9 fees_31_step_10
    js_NaN_simps)

subsection \<open>calculateFees at 1000\<close>

lemma fees_1000_step_1:
  "js_mul (Fin 1000) (Fin (6530219459687219 / 2251799813685248)) =
     Fin 2900"
  by (rule js_mul_cert [where e = 11 and u = "- 41" and m = 6377167441100800])
     (simp_all add: pow2_num)

lemma fees_1000_step_2:
  "js_div (Fin 2900) (Fin 100) = Fin 29"
  by (rule js_div_cert [where e = 4 and u = "- 48" and m = 8162774324609024])
     (simp_all add: pow2_num)

lemma fees_1000_step_3:
  "Math_round (Fin 29) = Fin 29"
  by (rule Math_round_cert [where n = 29]) simp_all

lemma fees_1000_step_4:
  "js_add (Fin 29) (Fin 30) = Fin 59"
  by (rule js_add_cert [where e = 5 and u = "- 47" and m = 8303511812964352])
     (simp_all add: pow2_num)

lemma fees_1000_step_5:
  "js_div (Fin 1000) (Fin (289637751035265 / 281474976710656)) =
     Fin (8548195356859087 / 8796093022208)"
  by (rule js_div_cert [where e = 9 and u = "- 43" and m = 8548195356859087])
     (simp_all add: pow2_num)

lemma fees_1000_step_6:
  "js_sub (Fin (8548195356859087 / 8796093022208)) (Fin 30) =
     Fin (8284312566192847 / 8796093022208)"
  by (rule js_sub_cert [where e = 9 and u = "- 43" and m = 8284312566192847])
     (simp_all add: pow2_num)

lemma fees_1000_step_7:
  "Math_round (Fin (8284312566192847 / 8796093022208)) = Fin 942"
  by (rule Math_round_cert [where n = 942]) simp_all

lemma fees_1000_step_8:
  "js_mul (Fin 942) (Fin 15) = Fin 14130"
  by (rule js_mul_cert [where e = 13 and u = "- 39" and m = 7768049650237440])
     (simp_all add: pow2_num)

lemma fees_1000_step_9:
  "js_div (Fin 14130) (Fin 100) = Fin (2485775888075981 / 17592186044416)"
  by (rule js_div_cert [where e = 7 and u = "- 45" and m = 4971551776151962])
     (simp_all add: pow2_num)

lemma fees_1000_step_10:
  "Math_round (Fin (2485775888075981 / 17592186044416)) = Fin 141"
  by (rule Math_round_cert [where n = 141]) simp_all

lemma fees_1000_step_11:
  "js_div (Fin 141) (Fin 942) =
     Fin (5392845413666581 / 36028797018963968)"
  by (rule js_div_cert [where e = "- 3" and u = "- 55" and m = 5392845413666581])
     (simp_all add: pow2_num)

lemma fees_1000_step_12:
  "js_mul (Fin 59) (Fin (5392845413666581 / 36028797018963968)) =
     Fin (4971529365723879 / 562949953421312)"
  by (rule js_mul_cert [where e = 3 and u = "- 49" and m = 4971529365723879])
     (simp_all add: pow2_num)

lemma fees_1000_step_13:
  "Math_round (Fin (4971529365723879 / 562949953421312)) = Fin 9"
  by (rule Math_round_cert [where n = 9]) simp_all

lemma fees_1000_step_14:
  "js_add (Fin 141) (Fin 9) = Fin 150"
  by (rule js_add_cert [where e = 7 and u = "- 45" and m = 5277655813324800])
     (simp_all add: pow2_num)

lemma fees_1000_step_15:
  "js_sub (Fin 1000) (Fin 150) = Fin 850"
  by (rule js_sub_cert [where e = 9 and u = "- 43" and m = 7476679068876800])
     (simp_all add: pow2_num)

lemma calculateFees_1000:
  "calculateFees (Fin 1000) =
     \<lparr>platformFee = Fin 150, instructorAmount = Fin 850\<rparr>"
  by (simp only: calculateFees_def
    Let_def STRIPE_FIXED_FEE_CENTS_def PLATFORM_FEE_PERCENTAGE_def
    STRIPE_PERCENTAGE_FEE_value fees_1000_step_1 fees_1000_step_2 fees_1000_step_3
    fees_1000_step_4 fee_fraction_value one_plus_fee_fraction_value fees_1000_step_5
    fees_1000_step_6 fees_1000_step_7 fees_1000_step_8 fees_1000_step_9 fees_1000_step_10
    fees_1000_step_11 fees_1000_step_12 fees_1000_step_13 fees_1000_step_14 fees_1000_step_15)

subsection \<open>calculateFees at 1061\<close>

lemma fees_1061_step_1:
  "js_mul (Fin 1061) (Fin (6530219459687219 / 2251799813685248)) =
     Fin (6766174655007949 / 2199023255552)"
  by (rule js_mul_cert [where e = 11 and u = "- 41" and m = 6766174655007949])
     (simp_all add: pow2_num)

lemma fees_1061_step_2:
  "js_div (Fin (6766174655007949 / 2199023255552)) (Fin 100) =
     Fin (8660703558410175 / 281474976710656)"
  by (rule js_div_cert [where e = 4 and u = "- 48" and m = 8660703558410175])
     (simp_all add: pow2_num)

lemma fees_1061_step_3:
  "Math_round (Fin (8660703558410175 / 281474976710656)) = Fin 31"
  by (rule Math_round_cert [where n = 31]) simp_all

lemma fees_1061_step_4:
  "js_add (Fin 31) (Fin 30) = Fin 61"
  by (rule js_add_cert [where e = 5 and u = "- 47" and m = 8584986789675008])
     (simp_all add: pow2_num)

lemma fees_1061_step_5:
  "js_div (Fin 1061) (Fin (289637751035265 / 281474976710656)) =
     Fin (2267408818406873 / 2199023255552)"
  by (rule js_div_cert [where e = 10 and u = "- 42" and m = 4534817636813746])
     (simp_all add: pow2_num)

lemma fees_1061_step_6:
  "js_sub (Fin (2267408818406873 / 2199023255552)) (Fin 30) =
     Fin (2201438120740313 / 2199023255552)"
  by (rule js_sub_cert [where e = 9 and u = "- 43" and m = 8805752482961252])
     (simp_all add: pow2_num)

lemma fees_1061_step_7:
  "Math_round (Fin (2201438120740313 / 2199023255552)) = Fin 1001"
  by (rule Math_round_cert [where n = 1001]) simp_all

lemma fees_1061_step_8:
  "js_mul (Fin 1001) (Fin 15) = Fin 15015"
  by (rule js_mul_cert [where e = 13 and u = "- 39" and m = 8254583545528320])
     (simp_all add: pow2_num)

lemma fees_1061_step_9:
  "js_div (Fin 15015) (Fin 100) = Fin (5282933469138125 / 35184372088832)"
  by (rule js_div_cert [where e = 7 and u = "- 45" and m = 5282933469138125])
     (simp_all add: pow2_num)

lemma fees_1061_step_10:
  "Math_round (Fin (5282933469138125 / 35184372088832)) = Fin 150"
  by (rule Math_round_cert [where n = 150]) simp_all

lemma fees_1061_step_11:
  "js_div (Fin 150) (Fin 1001) =
     Fin (5398920632212383 / 36028797018963968)"
  by (rule js_div_cert [where e = "- 3" and u = "- 55" and m = 5398920632212383])
     (simp_all add: pow2_num)

lemma fees_1061_step_12:
  "js_mul (Fin 61) (Fin (5398920632212383 / 36028797018963968)) =
     Fin (1286461556894357 / 140737488355328)"
  by (rule js_mul_cert [where e = 3 and u = "- 49" and m = 5145846227577428])
     (simp_all add: pow2_num)

lemma fees_1061_step_13:
  "Math_round (Fin (1286461556894357 / 140737488355328)) = Fin 9"
  by (rule Math_round_cert [where n = 9]) simp_all

lemma fees_1061_step_14:
  "js_add (Fin 150) (Fin 9) = Fin 159"
  by (rule js_add_cert [where e = 7 and u = "- 45" and m = 5594315162124288])
     (simp_all add: pow2_num)

lemma fees_1061_step_15:
  "js_sub (Fin 1061) (Fin 159) = Fin 902"
  by (rule js_sub_cert [where e = 9 and u = "- 43" and m = 7934075906031616])
     (simp_all add: pow2_num)

lemma calculateFees_1061:
  "calculateFees (Fin 1061) =
     \<lparr>platformFee = Fin 159, instructorAmount = Fin 902\<rparr>"
  by (simp only: calculateFees_def
    Let_def STRIPE_FIXED_FEE_CENTS_def PLATFORM_FEE_PERCENTAGE_def
    STRIPE_PERCENTAGE_FEE_value fees_1061_step_1 fees_1061_step_2 fees_1061_step_3
    fees_1061_step_4 fee_fraction_value one_plus_fee_fraction_value fees_1061_step_5
    fees_1061_step_6 fees_1061_step_7 fees_1061_step_8 fees_1061_step_9 fees_1061_step_10
    fees_1061_step_11 fees_1061_step_12 fees_1061_step_13 fees_1061_step_14 fees_1061_step_15)

subsection \<open>calculateFees at 30\<close>

lemma fees_30_step_1:
  "js_mul (Fin 30) (Fin (6530219459687219 / 2251799813685248)) = Fin 87"
  by (rule js_mul_cert [where e = 6 and u = "- 46" and m = 6122080743456768])
     (simp_all add: pow2_num)

lemma fees_30_step_2:
  "js_div (Fin 87) (Fin 100) = Fin (7836263351624663 / 9007199254740992)"
  by (rule js_div_cert [where e = "- 1" and u = "- 53" and m = 7836263351624663])
     (simp_all add: pow2_num)

lemma fees_30_step_3:
  "Math_round (Fin (7836263351624663 / 9007199254740992)) = Fin 1"
  by (rule Math_round_cert [where n = 1]) simp_all

lemma fees_30_step_4:
  "js_div (Fin 30) (Fin (289637751035265 / 281474976710656)) =
     Fin (2051566885646181 / 70368744177664)"
  by (rule js_div_cert [where e = 4 and u = "- 48" and m = 8206267542584724])
     (simp_all add: pow2_num)

lemma fees_30_step_5:
  "js_sub (Fin (2051566885646181 / 70368744177664)) (Fin 30) =
     Fin (- (59495439683739 / 70368744177664))"
  by (rule js_sub_cert [where e = "- 1" and u = "- 53" and m = "- 7615416279518592"])
     (simp_all add: pow2_num)

lemma fees_30_step_6:
  "Math_round (Fin (- (59495439683739 / 70368744177664))) = Fin (- 1)"
  by (rule Math_round_cert [where n = "- 1"]) simp_all

lemma fees_30_step_7:
  "js_mul (Fin (- 1)) (Fin 15) = Fin (- 15)"
  by (rule js_mul_cert [where e = 3 and u = "- 49" and m = "- 8444249301319680"])
     (simp_all add: pow2_num)

lemma fees_30_step_8:
  "js_div (Fin (- 15)) (Fin 100) =
     Fin (- (5404319552844595 / 36028797018963968))"
  by (rule js_div_cert [where e = "- 3" and u = "- 55" and m = "- 5404319552844595"])
     (simp_all add: pow2_num)

lemma fees_30_step_9:
  "Math_round (Fin (- (5404319552844595 / 36028797018963968))) = Fin 0"
  by (rule Math_round_cert [where n = 0]) simp_all

lemma fees_30_step_10:
  "js_div (Fin 0) (Fin (- 1)) = Fin 0"
  by (rule js_div_zero) simp_all

lemma fees_30_step_11:
  "js_mul (Fin 31) (Fin 0) = Fin 0"
  by (rule js_mul_zero) simp_all

lemma fees_30_step_12:
  "js_add (Fin 0) (Fin 0) = Fin 0"
  by (rule js_add_zero) simp_all

lemma fees_30_step_13:
  "js_sub (Fin 30) (Fin 0) = Fin 30"
  by (rule js_sub_cert [where e = 4 and u = "- 48" and m = 8444249301319680])
     (simp_all add: pow2_num)

lemma basePrice_of_30:
  "basePrice_of (Fin 30) = Fin (- 1)"
  by (simp only: basePrice_of_def STRIPE_FIXED_FEE_CENTS_def
    STRIPE_PERCENTAGE_FEE_value fee_fraction_value one_plus_fee_fraction_value fees_30_step_4
    fees_30_step_5 fees_30_step_6)

lemma calculateFees_30:
  "calculateFees (Fin 30) =
     \<lparr>platformFee = Fin 0, instructorAmount = Fin 30\<rparr>"
  by (simp only: calculateFees_def
    Let_def STRIPE_FIXED_FEE_CENTS_def PLATFORM_FEE_PERCENTAGE_def
    STRIPE_PERCENTAGE_FEE_value fees_30_step_1 fees_30_step_2 fees_30_step_3 fees_31_step_4
    fee_fraction_value one_plus_fee_fraction_value fees_30_step_4 fees_30_step_5
    fees_30_step_6 fees_30_step_7 fees_30_step_8 fees_30_step_9 fees_30_step_10
    fees_30_step_11 fees_31_step_10 fees_30_step_12 fees_30_step_13)

subsection \<open>calculateFees at 32\<close>

lemma fees_32_step_1:
  "js_mul (Fin 32) (Fin (6530219459687219 / 2251799813685248)) =
     Fin (6530219459687219 / 70368744177664)"
  by (rule js_mul_cert [where e = 6 and u = "- 46" and m = 6530219459687219])
     (simp_all add: pow2_num)

lemma fees_32_step_2:
  "js_div (Fin (6530219459687219 / 70368744177664)) (Fin 100) =
     Fin (1044835113549955 / 1125899906842624)"
  by (rule js_div_cert [where e = "- 1" and u = "- 53" and m = 8358680908399640])
     (simp_all add: pow2_num)

lemma fees_32_step_3:
  "Math_round (Fin (1044835113549955 / 1125899906842624)) = Fin 1"
  by (rule Math_round_cert [where n = 1]) simp_all

lemma fees_32_step_4:
  "js_div (Fin 32) (Fin (289637751035265 / 281474976710656)) =
     Fin (8753352045423705 / 281474976710656)"
  by (rule js_div_cert [where e = 4 and u = "- 48" and m = 8753352045423705])
     (simp_all add: pow2_num)

lemma fees_32_step_5:
  "js_sub (Fin (8753352045423705 / 281474976710656)) (Fin 30) =
     Fin (309102744104025 / 281474976710656)"
  by (rule js_sub_cert [where e = 0 and u = "- 52" and m = 4945643905664400])
     (simp_all add: pow2_num)

lemma fees_32_step_6:
  "Math_round (Fin (309102744104025 / 281474976710656)) = Fin 1"
  by (rule Math_round_cert [where n = 1]) simp_all

lemma fees_32_step_7:
  "js_mul (Fin 1) (Fin 15) = Fin 15"
  by (rule js_mul_cert [where e = 3 and u = "- 49" and m = 8444249301319680])
     (simp_all add: pow2_num)

lemma fees_32_step_8:
  "js_div (Fin 15) (Fin 100) = Fin (5404319552844595 / 36028797018963968)"
  by (rule js_div_cert [where e = "- 3" and u = "- 55" and m = 5404319552844595])
     (simp_all add: pow2_num)

lemma fees_32_step_9:
  "Math_round (Fin (5404319552844595 / 36028797018963968)) = Fin 0"
  by (rule Math_round_cert [where n = 0]) simp_all

lemma fees_32_step_10:
  "js_div (Fin 0) (Fin 1) = Fin 0"
  by (rule js_div_zero) simp_all

lemma fees_32_step_11:
  "js_sub (Fin 32) (Fin 0) = Fin 32"
  by (rule js_sub_cert [where e = 5 and u = "- 47" and m = 4503599627370496])
     (simp_all add: pow2_num)

lemma basePrice_of_32:
  "basePrice_of (Fin 32) = Fin 1"
  by (simp only: basePrice_of_def STRIPE_FIXED_FEE_CENTS_def
    STRIPE_PERCENTAGE_FEE_value fee_fraction_value one_plus_fee_fraction_value fees_32_step_4
    fees_32_step_5 fees_32_step_6)

lemma calculateFees_32:
  "calculateFees (Fin 32) =
     \<lparr>platformFee = Fin 0, instructorAmount = Fin 32\<rparr>"
  by (simp only: calculateFees_def
    Let_def STRIPE_FIXED_FEE_CENTS_def PLATFORM_FEE_PERCENTAGE_def
    STRIPE_PERCENTAGE_FEE_value fees_32_step_1 fees_32_step_2 fees_32_step_3 fees_31_step_4
    fee_fraction_value one_plus_fee_fraction_value fees_32_step_4 fees_32_step_5
    fees_32_step_6 fees_32_step_7 fees_32_step_8 fees_32_step_9 fees_32_step_10
    fees_30_step_11 fees_31_step_10 fees_30_step_12 fees_32_step_11)

subsection \<open>calculateFees at 33\<close>

lemma fees_33_step_1:
  "js_mul (Fin 33) (Fin (6530219459687219 / 2251799813685248)) =
     Fin (6734288817802445 / 70368744177664)"
  by (rule js_mul_cert [where e = 6 and u = "- 46" and m = 6734288817802445])
     (simp_all add: pow2_num)

lemma fees_33_step_2:
  "js_div (Fin (6734288817802445 / 70368744177664)) (Fin 100) =
     Fin (4309944843393565 / 4503599627370496)"
  by (rule js_div_cert [where e = "- 1" and u = "- 53" and m = 8619889686787130])
     (simp_all add: pow2_num)

lemma fees_33_step_3:
  "Math_round (Fin (4309944843393565 / 4503599627370496)) = Fin 1"
  by (rule Math_round_cert [where n = 1]) simp_all

lemma fees_33_step_4:
  "js_div (Fin 33) (Fin (289637751035265 / 281474976710656)) =
     Fin (2256723574210799 / 70368744177664)"
  by (rule js_div_cert [where e = 5 and u = "- 47" and m = 4513447148421598])
     (simp_all add: pow2_num)

lemma fees_33_step_5:
  "js_sub (Fin (2256723574210799 / 70368744177664)) (Fin 30) =
     Fin (145661248880879 / 70368744177664)"
  by (rule js_sub_cert [where e = 1 and u = "- 51" and m = 4661159964188128])
     (simp_all add: pow2_num)

lemma fees_33_step_6:
  "Math_round (Fin (145661248880879 / 70368744177664)) = Fin 2"
  by (rule Math_round_cert [where n = 2]) simp_all

lemma fees_33_step_7:
  "js_mul (Fin 2) (Fin 15) = Fin 30"
  by (rule js_mul_cert [where e = 4 and u = "- 48" and m = 8444249301319680])
     (simp_all add: pow2_num)

lemma fees_33_step_8:
  "js_div (Fin 30) (Fin 100) = Fin (5404319552844595 / 18014398509481984)"
  by (rule js_div_cert [where e = "- 2" and u = "- 54" and m = 5404319552844595])
     (simp_all add: pow2_num)

lemma fees_33_step_9:
  "Math_round (Fin (5404319552844595 / 18014398509481984)) = Fin 0"
  by (rule Math_round_cert [where n = 0]) simp_all

lemma fees_33_step_10:
  "js_div (Fin 0) (Fin 2) = Fin 0"
  by (rule js_div_zero) simp_all

lemma fees_33_step_11:
  "js_sub (Fin 33) (Fin 0) = Fin 33"
  by (rule js_sub_cert [where e = 5 and u = "- 47" and m = 4644337115725824])
     (simp_all add: pow2_num)

lemma calculateFees_33:
  "calculateFees (Fin 33) =
     \<lparr>platformFee = Fin 0, instructorAmount = Fin 33\<rparr>"
  by (simp only: calculateFees_def
    Let_def STRIPE_FIXED_FEE_CENTS_def PLATFORM_FEE_PERCENTAGE_def
    STRIPE_PERCENTAGE_FEE_value fees_33_step_1 fees_33_step_2 fees_33_step_3 fees_31_step_4
    fee_fraction_value one_plus_fee_fraction_value fees_33_step_4 fees_33_step_5
    fees_33_step_6 fees_33_step_7 fees_33_step_8 fees_33_step_9 fees_33_step_10
    fees_30_step_11 fees_31_step_10 fees_30_step_12 fees_33_step_11)

subsection \<open>calculateFees at 34\<close>

lemma fees_34_step_1:
  "js_mul (Fin 34) (Fin (6530219459687219 / 2251799813685248)) =
     Fin (3469179087958835 / 35184372088832)"
  by (rule js_mul_cert [where e = 6 and u = "- 46" and m = 6938358175917670])
     (simp_all add: pow2_num)

lemma fees_34_step_2:
  "js_div (Fin (3469179087958835 / 35184372088832)) (Fin 100) =
     Fin (4440549232587309 / 4503599627370496)"
  by (rule js_div_cert [where e = "- 1" and u = "- 53" and m = 8881098465174618])
     (simp_all add: pow2_num)

lemma fees_34_step_3:
  "Math_round (Fin (4440549232587309 / 4503599627370496)) = Fin 1"
  by (rule Math_round_cert [where n = 1]) simp_all

lemma fees_34_step_4:
  "js_div (Fin 34) (Fin (289637751035265 / 281474976710656)) =
     Fin (4650218274131343 / 140737488355328)"
  by (rule js_div_cert [where e = 5 and u = "- 47" and m = 4650218274131343])
     (simp_all add: pow2_num)

lemma fees_34_step_5:
  "js_sub (Fin (4650218274131343 / 140737488355328)) (Fin 30) =
     Fin (428093623471503 / 140737488355328)"
  by (rule js_sub_cert [where e = 1 and u = "- 51" and m = 6849497975544048])
     (simp_all add: pow2_num)

lemma fees_34_step_6:
  "Math_round (Fin (428093623471503 / 140737488355328)) = Fin 3"
  by (rule Math_round_cert [where n = 3]) simp_all

lemma fees_34_step_7:
  "js_mul (Fin 3) (Fin 15) = Fin 45"
  by (rule js_mul_cert [where e = 5 and u = "- 47" and m = 6333186975989760])
     (simp_all add: pow2_num)

lemma fees_34_step_8:
  "js_div (Fin 45) (Fin 100) = Fin (8106479329266893 / 18014398509481984)"
  by (rule js_div_cert [where e = "- 2" and u = "- 54" and m = 8106479329266893])
     (simp_all add: pow2_num)

lemma fees_34_step_9:
  "Math_round (Fin (8106479329266893 / 18014398509481984)) = Fin 0"
  by (rule Math_round_cert [where n = 0]) simp_all

lemma fees_34_step_10:
  "js_div (Fin 0) (Fin 3) = Fin 0"
  by (rule js_div_zero) simp_all

lemma fees_34_step_11:
  "js_sub (Fin 34) (Fin 0) = Fin 34"
  by (rule js_sub_cert [where e = 5 and u = "- 47" and m = 4785074604081152])
     (simp_all add: pow2_num)

lemma calculateFees_34:
  "calculateFees (Fin 34) =
     \<lparr>platformFee = Fin 0, instructorAmount = Fin 34\<rparr>"
  by (simp only: calculateFees_def
    Let_def STRIPE_FIXED_FEE_CENTS_def PLATFORM_FEE_PERCENTAGE_def
    STRIPE_PERCENTAGE_FEE_value fees_34_step_1 fees_34_step_2 fees_34_step_3 fees_31_step_4
    fee_fraction_value one_plus_fee_fraction_value fees_34_step_4 fees_34_step_5
    fees_34_step_6 fees_34_step_7 fees_34_step_8 fees_34_step_9 fees_34_step_10
    fees_30_step_11 fees_31_step_10 fees_30_step_12 fees_34_step_11)

subsection \<open>calculateFees at 0\<close>

lemma fees_0_step_1:
  "js_mul (Fin 0) (Fin (6530219459687219 / 2251799813685248)) = Fin 0"
  by (rule js_mul_zero) simp_all

lemma fees_0_step_2:
  "js_add (Fin 0) (Fin 30) = Fin 30"
  by (rule js_add_cert [where e = 4 and u = "- 48" and m = 8444249301319680])
     (simp_all add: pow2_num)

lemma fees_0_step_3:
  "js_div (Fin 0) (Fin (289637751035265 / 281474976710656)) = Fin 0"
  by (rule js_div_zero) simp_all

lemma fees_0_step_4:
  "js_sub (Fin 0) (Fin 30) = Fin (- 30)"
  by (rule js_sub_cert [where e = 4 and u = "- 48" and m = "- 8444249301319680"])
     (simp_all add: pow2_num)

lemma fees_0_step_5:
  "Math_round (Fin (- 30)) = Fin (- 30)"
  by (rule Math_round_cert [where n = "- 30"]) simp_all

lemma fees_0_step_6:
  "js_mul (Fin (- 30)) (Fin 15) = Fin (- 450)"
  by (rule js_mul_cert [where e = 8 and u = "- 44" and m = "- 7916483719987200"])
     (simp_all add: pow2_num)

lemma fees_0_step_7:
  "js_div (Fin (- 450)) (Fin 100) = Fin (- (9 / 2))"
  by (rule js_div_cert [where e = 2 and u = "- 50" and m = "- 5066549580791808"])
     (simp_all add: pow2_num)

lemma fees_0_step_8:
  "Math_round (Fin (- (9 / 2))) = Fin (- 4)"
  by (rule Math_round_cert [where n = "- 4"]) simp_all

lemma fees_0_step_9:
  "js_div (Fin (- 4)) (Fin (- 30)) =
     Fin (4803839602528529 / 36028797018963968)"
  by (rule js_div_cert [where e = "- 3" and u = "- 55" and m = 4803839602528529])
     (simp_all add: pow2_num)

lemma fees_0_step_10:
  "js_mul (Fin 30) (Fin (4803839602528529 / 36028797018963968)) = Fin 4"
  by (rule js_mul_cert [where e = 1 and u = "- 51" and m = 9007199254740992])
     (simp_all add: pow2_num)

lemma fees_0_step_11:
  "Math_round (Fin 4) = Fin 4"
  by (rule Math_round_cert [where n = 4]) simp_all

lemma fees_0_step_12:
  "js_add (Fin (- 4)) (Fin 4) = Fin 0"
  by (rule js_add_zero) simp_all

lemma fees_0_step_13:
  "js_sub (Fin 0) (Fin 0) = Fin 0"
  by (rule js_sub_zero) simp_all

lemma calculateFees_0:
  "calculateFees (Fin 0) =
     \<lparr>platformFee = Fin 0, instructorAmount = Fin 0\<rparr>"
  by (simp only: calculateFees_def
    Let_def STRIPE_FIXED_FEE_CENTS_def PLATFORM_FEE_PERCENTAGE_def
    STRIPE_PERCENTAGE_FEE_value fees_0_step_1 fees_31_step_9 fees_31_step_10 fees_0_step_2
    fee_fraction_value one_plus_fee_fraction_value fees_0_step_3 fees_0_step_4 fees_0_step_5
    fees_0_step_6 fees_0_step_7 fees_0_step_8 fees_0_step_9 fees_0_step_10 fees_0_step_11
    fees_0_step_12 fees_0_step_13)

subsection \<open>calculatePriceWithStripeFees at 0\<close>

lemma price_0_step_1:
  "js_div (Fin 30) (Fin (8745990476353503 / 9007199254740992)) =
     Fin (8696446242347765 / 281474976710656)"
  by (rule js_div_cert [where e = 4 and u = "- 48" and m = 8696446242347765])
     (simp_all add: pow2_num)

lemma price_0_step_2:
  "Math_round (Fin (8696446242347765 / 281474976710656)) = Fin 31"
  by (rule Math_round_cert [where n = 31]) simp_all

lemma calculatePriceWithStripeFees_0:
  "calculatePriceWithStripeFees (Fin 0) = Fin 31"
  by (simp only: calculatePriceWithStripeFees_def
    Let_def STRIPE_FIXED_FEE_CENTS_def PLATFORM_FEE_PERCENTAGE_def
    STRIPE_PERCENTAGE_FEE_value fees_0_step_2 fee_fraction_value one_minus_fee_fraction_value
    price_0_step_1 price_0_step_2)

subsection \<open>calculatePriceWithStripeFees at 1000\<close>

lemma price_1000_step_1:
  "js_add (Fin 1000) (Fin 30) = Fin 1030"
  by (rule js_add_cert [where e = 10 and u = "- 42" and m = 4529987906437120])
     (simp_all add: pow2_num)

lemma price_1000_step_2:
  "js_div (Fin 1030) (Fin (8745990476353503 / 9007199254740992)) =
     Fin (1166320264273203 / 1099511627776)"
  by (rule js_div_cert [where e = 10 and u = "- 42" and m = 4665281057092812])
     (simp_all add: pow2_num)

lemma price_1000_step_3:
  "Math_round (Fin (1166320264273203 / 1099511627776)) = Fin 1061"
  by (rule Math_round_cert [where n = 1061]) simp_all

lemma calculatePriceWithStripeFees_1000:
  "calculatePriceWithStripeFees (Fin 1000) = Fin 1061"
  by (simp only: calculatePriceWithStripeFees_def
    Let_def STRIPE_FIXED_FEE_CENTS_def PLATFORM_FEE_PERCENTAGE_def
    STRIPE_PERCENTAGE_FEE_value price_1000_step_1 fee_fraction_value
    one_minus_fee_fraction_value price_1000_step_2 price_1000_step_3)

subsection \<open>calculatePriceWithStripeFees at -5\<close>

lemma price_neg_5_step_1:
  "js_add (Fin (- 5)) (Fin 30) = Fin 25"
  by (rule js_add_cert [where e = 4 and u = "- 48" and m = 7036874417766400])
     (simp_all add: pow2_num)

lemma price_neg_5_step_2:
  "js_div (Fin 25) (Fin (8745990476353503 / 9007199254740992)) =
     Fin (7247038535289805 / 281474976710656)"
  by (rule js_div_cert [where e = 4 and u = "- 48" and m = 7247038535289805])
     (simp_all add: pow2_num)

lemma price_neg_5_step_3:
  "Math_round (Fin (7247038535289805 / 281474976710656)) = Fin 26"
  by (rule Math_round_cert [where n = 26]) simp_all

lemma calculatePriceWithStripeFees_neg_5:
  "calculatePriceWithStripeFees (Fin (- 5)) = Fin 26"
  by (simp only: calculatePriceWithStripeFees_def
    Let_def STRIPE_FIXED_FEE_CENTS_def PLATFORM_FEE_PERCENTAGE_def
    STRIPE_PERCENTAGE_FEE_value price_neg_5_step_1 fee_fraction_value
    one_minus_fee_fraction_value price_neg_5_step_2 price_neg_5_step_3)

subsection \<open>The conversions of the checkout route at a price of 10 dollars\<close>

lemma checkout_10_step_1:
  "js_mul (Fin 10) (Fin 100) = Fin 1000"
  by (rule js_mul_cert [where e = 9 and u = "- 43" and m = 8796093022208000])
     (simp_all add: pow2_num)

lemma checkout_10_step_2:
  "Math_round (Fin 1000) = Fin 1000"
  by (rule Math_round_cert [where n = 1000]) simp_all

lemma checkout_10_step_3:
  "js_div (Fin 1061) (Fin 100) = Fin (746612375725015 / 70368744177664)"
  by (rule js_div_cert [where e = 3 and u = "- 49" and m = 5972899005800120])
     (simp_all add: pow2_num)

lemma checkout_10_step_4:
  "js_mul (Fin (746612375725015 / 70368744177664)) (Fin 100) = Fin 1061"
  by (rule js_mul_cert [where e = 10 and u = "- 42" and m = 4666327348281344])
     (simp_all add: pow2_num)

lemma checkout_10_step_5:
  "Math_round (Fin 1061) = Fin 1061"
  by (rule Math_round_cert [where n = 1061]) simp_all

subsection \<open>calculateFees at 10330\<close>

lemma fees_10330_step_1:
  "js_mul (Fin 10330) (Fin (6530219459687219 / 2251799813685248)) =
     Fin 29957"
  by (rule js_mul_cert [where e = 14 and u = "- 38" and m = 8234517458321408])
     (simp_all add: pow2_num)

lemma fees_10330_step_2:
  "js_div (Fin 29957) (Fin 100) = Fin (5270091173325701 / 17592186044416)"
  by (rule js_div_cert [where e = 8 and u = "- 44" and m = 5270091173325701])
     (simp_all add: pow2_num)

lemma fees_10330_step_3:
  "Math_round (Fin (5270091173325701 / 17592186044416)) = Fin 300"
  by (rule Math_round_cert [where n = 300]) simp_all

lemma fees_10330_step_4:
  "js_add (Fin 300) (Fin 30) = Fin 330"
  by (rule js_add_cert [where e = 8 and u = "- 44" and m = 5805421394657280])
     (simp_all add: pow2_num)

lemma fees_10330_step_5:
  "js_div (Fin 10330) (Fin (289637751035265 / 281474976710656)) =
     Fin (1379732156818037 / 137438953472)"
  by (rule js_div_cert [where e = 13 and u = "- 39" and m = 5518928627272148])
     (simp_all add: pow2_num)

lemma fees_10330_step_6:
  "js_sub (Fin (1379732156818037 / 137438953472)) (Fin 30) =
     Fin (1375608988213877 / 137438953472)"
  by (rule js_sub_cert [where e = 13 and u = "- 39" and m = 5502435952855508])
     (simp_all add: pow2_num)

lemma fees_10330_step_7:
  "Math_round (Fin (1375608988213877 / 137438953472)) = Fin 10009"
  by (rule Math_round_cert [where n = 10009]) simp_all

lemma fees_10330_step_8:
  "js_mul (Fin 10009) (Fin 15) = Fin 150135"
  by (rule js_mul_cert [where e = 17 and u = "- 35" and m = 5158599319879680])
     (simp_all add: pow2_num)

lemma fees_10330_step_9:
  "js_div (Fin 150135) (Fin 100) = Fin (3301503564722995 / 2199023255552)"
  by (rule js_div_cert [where e = 10 and u = "- 42" and m = 6603007129445990])
     (simp_all add: pow2_num)

lemma fees_10330_step_10:
  "Math_round (Fin (3301503564722995 / 2199023255552)) = Fin 1501"
  by (rule Math_round_cert [where n = 1501]) simp_all

lemma fees_10330_step_11:
  "js_div (Fin 1501) (Fin 10009) =
     Fin (1350764919708885 / 9007199254740992)"
  by (rule js_div_cert [where e = "- 3" and u = "- 55" and m = 5403059678835540])
     (simp_all add: pow2_num)

lemma fees_10330_step_12:
  "js_mul (Fin 330) (Fin (1350764919708885 / 9007199254740992)) =
     Fin (3482440808624469 / 70368744177664)"
  by (rule js_mul_cert [where e = 5 and u = "- 47" and m = 6964881617248938])
     (simp_all add: pow2_num)

lemma fees_10330_step_13:
  "Math_round (Fin (3482440808624469 / 70368744177664)) = Fin 49"
  by (rule Math_round_cert [where n = 49]) simp_all

lemma fees_10330_step_14:
  "js_add (Fin 1501) (Fin 49) = Fin 1550"
  by (rule js_add_cert [where e = 10 and u = "- 42" and m = 6816972092211200])
     (simp_all add: pow2_num)

lemma fees_10330_step_15:
  "js_sub (Fin 10330) (Fin 1550) = Fin 8780"
  by (rule js_sub_cert [where e = 13 and u = "- 39" and m = 4826856045936640])
     (simp_all add: pow2_num)

lemma calculateFees_10330:
  "calculateFees (Fin 10330) =
     \<lparr>platformFee = Fin 1550, instructorAmount = Fin 8780\<rparr>"
  by (simp only: calculateFees_def
    Let_def STRIPE_FIXED_FEE_CENTS_def PLATFORM_FEE_PERCENTAGE_def
    STRIPE_PERCENTAGE_FEE_value fees_10330_step_1 fees_10330_step_2 fees_10330_step_3
    fees_10330_step_4 fee_fraction_value one_plus_fee_fraction_value fees_10330_step_5
    fees_10330_step_6 fees_10330_step_7 fees_10330_step_8 fees_10330_step_9 fees_10330_step_10
    fees_10330_step_11 fees_10330_step_12 fees_10330_step_13 fees_10330_step_14
    fees_10330_step_15)

subsection \<open>calculateFees at -5\<close>

lemma fees_neg_5_step_1:
  "js_mul (Fin (- 5)) (Fin (6530219459687219 / 2251799813685248)) =
     Fin (- (29 / 2))"
  by (rule js_mul_cert [where e = 3 and u = "- 49" and m = "- 8162774324609024"])
     (simp_all add: pow2_num)

lemma fees_neg_5_step_2:
  "js_div (Fin (- (29 / 2))) (Fin 100) =
     Fin (- (5224175567749775 / 36028797018963968))"
  by (rule js_div_cert [where e = "- 3" and u = "- 55" and m = "- 5224175567749775"])
     (simp_all add: pow2_num)

lemma fees_neg_5_step_3:
  "Math_round (Fin (- (5224175567749775 / 36028797018963968))) = Fin 0"
  by (rule Math_round_cert [where n = 0]) simp_all

lemma fees_neg_5_step_4:
  "js_div (Fin (- 5)) (Fin (289637751035265 / 281474976710656)) =
     Fin (- (683855628548727 / 140737488355328))"
  by (rule js_div_cert [where e = 2 and u = "- 50" and m = "- 5470845028389816"])
     (simp_all add: pow2_num)

lemma fees_neg_5_step_5:
  "js_sub (Fin (- (683855628548727 / 140737488355328))) (Fin 30) =
     Fin (- (4905980279208567 / 140737488355328))"
  by (rule js_sub_cert [where e = 5 and u = "- 47" and m = "- 4905980279208567"])
     (simp_all add: pow2_num)

lemma fees_neg_5_step_6:
  "Math_round (Fin (- (4905980279208567 / 140737488355328))) = Fin (- 35)"
  by (rule Math_round_cert [where n = "- 35"]) simp_all

lemma fees_neg_5_step_7:
  "js_mul (Fin (- 35)) (Fin 15) = Fin (- 525)"
  by (rule js_mul_cert [where e = 9 and u = "- 43" and m = "- 4617948836659200"])
     (simp_all add: pow2_num)

lemma fees_neg_5_step_8:
  "js_div (Fin (- 525)) (Fin 100) = Fin (- (21 / 4))"
  by (rule js_div_cert [where e = 2 and u = "- 50" and m = "- 5910974510923776"])
     (simp_all add: pow2_num)

lemma fees_neg_5_step_9:
  "Math_round (Fin (- (21 / 4))) = Fin (- 5)"
  by (rule Math_round_cert [where n = "- 5"]) simp_all

lemma fees_neg_5_step_10:
  "js_div (Fin (- 5)) (Fin (- 35)) =
     Fin (2573485501354569 / 18014398509481984)"
  by (rule js_div_cert [where e = "- 3" and u = "- 55" and m = 5146971002709138])
     (simp_all add: pow2_num)

lemma fees_neg_5_step_11:
  "js_mul (Fin 30) (Fin (2573485501354569 / 18014398509481984)) =
     Fin (4825285315039817 / 1125899906842624)"
  by (rule js_mul_cert [where e = 2 and u = "- 50" and m = 4825285315039817])
     (simp_all add: pow2_num)

lemma fees_neg_5_step_12:
  "Math_round (Fin (4825285315039817 / 1125899906842624)) = Fin 4"
  by (rule Math_round_cert [where n = 4]) simp_all

lemma fees_neg_5_step_13:
  "js_add (Fin (- 5)) (Fin 4) = Fin (- 1)"
  by (rule js_add_cert [where e = 0 and u = "- 52" and m = "- 4503599627370496"])
     (simp_all add: pow2_num)

lemma fees_neg_5_step_14:
  "js_sub (Fin (- 5)) (Fin (- 1)) = Fin (- 4)"
  by (rule js_sub_cert [where e = 2 and u = "- 50" and m = "- 4503599627370496"])
     (simp_all add: pow2_num)

lemma calculateFees_neg_5:
  "calculateFees (Fin (- 5)) =
     \<lparr>platformFee = Fin (- 1), instructorAmount = Fin (- 4)\<rparr>"
  by (simp only: calculateFees_def
    Let_def STRIPE_FIXED_FEE_CENTS_def PLATFORM_FEE_PERCENTAGE_def
    STRIPE_PERCENTAGE_FEE_value fees_neg_5_step_1 fees_neg_5_step_2 fees_neg_5_step_3
    fees_0_step_2 fee_fraction_value one_plus_fee_fraction_value fees_neg_5_step_4
    fees_neg_5_step_5 fees_neg_5_step_6 fees_neg_5_step_7 fees_neg_5_step_8 fees_neg_5_step_9
    fees_neg_5_step_10 fees_neg_5_step_11 fees_neg_5_step_12 fees_neg_5_step_13
    fees_neg_5_step_14)

subsection \<open>calculateFees at 1000.5\<close>

lemma fees_1000_5_step_1:
  "js_mul (Fin (2001 / 2)) (Fin (6530219459687219 / 2251799813685248)) =
     Fin (3190178012410675 / 1099511627776)"
  by (rule js_mul_cert [where e = 11 and u = "- 41" and m = 6380356024821350])
     (simp_all add: pow2_num)

lemma fees_1000_5_step_2:
  "js_div (Fin (3190178012410675 / 1099511627776)) (Fin 100) =
     Fin (127607120496427 / 4398046511104)"
  by (rule js_div_cert [where e = 4 and u = "- 48" and m = 8166855711771328])
     (simp_all add: pow2_num)

lemma fees_1000_5_step_3:
  "Math_round (Fin (127607120496427 / 4398046511104)) = Fin 29"
  by (rule Math_round_cert [where n = 29]) simp_all

lemma fees_1000_5_step_4:
  "js_div (Fin (2001 / 2)) (Fin (289637751035265 / 281474976710656)) =
     Fin (8552469454537517 / 8796093022208)"
  by (rule js_div_cert [where e = 9 and u = "- 43" and m = 8552469454537517])
     (simp_all add: pow2_num)

lemma fees_1000_5_step_5:
  "js_sub (Fin (8552469454537517 / 8796093022208)) (Fin 30) =
     Fin (8288586663871277 / 8796093022208)"
  by (rule js_sub_cert [where e = 9 and u = "- 43" and m = 8288586663871277])
     (simp_all add: pow2_num)

lemma fees_1000_5_step_6:
  "Math_round (Fin (8288586663871277 / 8796093022208)) = Fin 942"
  by (rule Math_round_cert [where n = 942]) simp_all

lemma fees_1000_5_step_7:
  "js_sub (Fin (2001 / 2)) (Fin 150) = Fin (1701 / 2)"
  by (rule js_sub_cert [where e = 9 and u = "- 43" and m = 7481077115387904])
     (simp_all add: pow2_num)

lemma calculateFees_1000_5:
  "calculateFees (Fin (2001 / 2)) =
     \<lparr>platformFee = Fin 150, instructorAmount = Fin (1701 / 2)\<rparr>"
  by (simp only: calculateFees_def
    Let_def STRIPE_FIXED_FEE_CENTS_def PLATFORM_FEE_PERCENTAGE_def
    STRIPE_PERCENTAGE_FEE_value fees_1000_5_step_1 fees_1000_5_step_2 fees_1000_5_step_3
    fees_1000_step_4 fee_fraction_value one_plus_fee_fraction_value fees_1000_5_step_4
    fees_1000_5_step_5 fees_1000_5_step_6 fees_1000_step_8 fees_1000_step_9 fees_1000_step_10
    fees_1000_step_11 fees_1000_step_12 fees_1000_step_13 fees_1000_step_14 fees_1000_5_step_7)

subsection \<open>splitFees_platform_absorbs at 10330\<close>

lemma absorb_10330_step_1:
  "js_sub (Fin 100) (Fin 15) = Fin 85"
  by (rule js_sub_cert [where e = 6 and u = "- 46" and m = 5981343255101440])
     (simp_all add: pow2_num)

lemma absorb_10330_step_2:
  "js_mul (Fin 10009) (Fin 85) = Fin 850765"
  by (rule js_mul_cert [where e = 19 and u = "- 33" and m = 7308015703162880])
     (simp_all add: pow2_num)

lemma absorb_10330_step_3:
  "js_div (Fin 850765) (Fin 100) = Fin (4677130050024243 / 549755813888)"
  by (rule js_div_cert [where e = 13 and u = "- 39" and m = 4677130050024243])
     (simp_all add: pow2_num)

lemma absorb_10330_step_4:
  "Math_round (Fin (4677130050024243 / 549755813888)) = Fin 8508"
  by (rule Math_round_cert [where n = 8508]) simp_all

lemma absorb_10330_step_5:
  "js_div (Fin 8508) (Fin 10009) =
     Fin (7656434335032107 / 9007199254740992)"
  by (rule js_div_cert [where e = "- 1" and u = "- 53" and m = 7656434335032107])
     (simp_all add: pow2_num)

lemma absorb_10330_step_6:
  "js_mul (Fin 330) (Fin (7656434335032107 / 9007199254740992)) =
     Fin (4934811192501163 / 17592186044416)"
  by (rule js_mul_cert [where e = 8 and u = "- 44" and m = 4934811192501163])
     (simp_all add: pow2_num)

lemma absorb_10330_step_7:
  "Math_round (Fin (4934811192501163 / 17592186044416)) = Fin 281"
  by (rule Math_round_cert [where n = 281]) simp_all

lemma absorb_10330_step_8:
  "js_add (Fin 8508) (Fin 281) = Fin 8789"
  by (rule js_add_cert [where e = 13 and u = "- 39" and m = 4831803848261632])
     (simp_all add: pow2_num)

lemma absorb_10330_step_9:
  "js_sub (Fin 10330) (Fin 8789) = Fin 1541"
  by (rule js_sub_cert [where e = 10 and u = "- 42" and m = 6777389673611264])
     (simp_all add: pow2_num)

lemma splitFees_platform_absorbs_10330:
  "splitFees_platform_absorbs (Fin 10330) =
     \<lparr>platformFee = Fin 1541, instructorAmount = Fin 8789\<rparr>"
  by (simp only: splitFees_platform_absorbs_def INSTRUCTOR_PERCENTAGE_def
    Let_def STRIPE_FIXED_FEE_CENTS_def PLATFORM_FEE_PERCENTAGE_def
    STRIPE_PERCENTAGE_FEE_value fees_10330_step_1 fees_10330_step_2 fees_10330_step_3
    fees_10330_step_4 fee_fraction_value one_plus_fee_fraction_value fees_10330_step_5
    fees_10330_step_6 fees_10330_step_7 absorb_10330_step_1 absorb_10330_step_2
    absorb_10330_step_3 absorb_10330_step_4 absorb_10330_step_5 absorb_10330_step_6
    absorb_10330_step_7 absorb_10330_step_8 absorb_10330_step_9)

subsection \<open>counterpartyShare_of_amount at 10330\<close>

lemma share_10330_step_1:
  "js_mul (Fin 10330) (Fin 85) = Fin 878050"
  by (rule js_mul_cert [where e = 19 and u = "- 33" and m = 7542392068505600])
     (simp_all add: pow2_num)

lemma share_10330_step_2:
  "js_div (Fin 878050) (Fin 100) = Fin (17561 / 2)"
  by (rule js_div_cert [where e = 13 and u = "- 39" and m = 4827130923843584])
     (simp_all add: pow2_num)

lemma share_10330_step_3:
  "Math_round (Fin (17561 / 2)) = Fin 8781"
  by (rule Math_round_cert [where n = 8781]) simp_all

lemma counterpartyShare_of_amount_10330:
  "counterpartyShare_of_amount (Fin 10330) = Fin 8781"
  by (simp only: counterpartyShare_of_amount_def INSTRUCTOR_PERCENTAGE_def
    PLATFORM_FEE_PERCENTAGE_def
    absorb_10330_step_1 share_10330_step_1 share_10330_step_2 share_10330_step_3)

subsection \<open>counterpartyShare_exact at 10330\<close>

lemma counterpartyShare_exact_10330:
  "counterpartyShare_exact 10330 = 8779"
  unfolding counterpartyShare_exact_def by (rule floor_unique) simp_all

section \<open>The charge amount: monotonicity and the lower bound\<close>

lemma one_minus_value:
  "js_sub (Fin 1) (js_div STRIPE_PERCENTAGE_FEE (Fin 100)) =
     Fin (8745990476353503 / 9007199254740992)"
  by (simp only: STRIPE_PERCENTAGE_FEE_value fee_fraction_value one_minus_fee_fraction_value)

lemma one_plus_value:
  "js_add (Fin 1) (js_div STRIPE_PERCENTAGE_FEE (Fin 100)) =
     Fin (289637751035265 / 281474976710656)"
  by (simp only: STRIPE_PERCENTAGE_FEE_value fee_fraction_value one_plus_fee_fraction_value)

lemma calculatePriceWithStripeFees_Fin:
  "calculatePriceWithStripeFees (Fin a) =
     Math_round (js_div (fl (a + 30)) (Fin (8745990476353503 / 9007199254740992)))"
  by (simp only: calculatePriceWithStripeFees_def Let_def one_minus_value
      STRIPE_FIXED_FEE_CENTS_def js_add.simps)

lemma calculateFees_parts:
  "calculateFees amount =
     \<lparr>platformFee = js_add (basePlatformFee_of amount) (platformShareOfStripeFee_of amount),
      instructorAmount =
        js_sub amount (js_add (basePlatformFee_of amount) (platformShareOfStripeFee_of amount))\<rparr>"
  by (simp only: calculateFees_def Let_def totalStripeFee_of_def basePrice_of_def
      basePlatformFee_of_def platformShareOfStripeFee_of_def)

lemma calculateFees_default:
  "calculateFees amount = calculateFees_with PLATFORM_FEE_PERCENTAGE amount"
  by (simp only: calculateFees_def calculateFees_with_def)

lemma calculateFees_with_parts:
  "calculateFees_with platformFeePercentage amount =
     \<lparr>platformFee =
        js_add
          (Math_round (js_div (js_mul (basePrice_of amount) platformFeePercentage) (Fin 100)))
          (Math_round
             (js_mul (totalStripeFee_of amount)
                (js_div
                   (Math_round
                      (js_div (js_mul (basePrice_of amount) platformFeePercentage) (Fin 100)))
                   (basePrice_of amount)))),
      instructorAmount =
        js_sub amount
          (js_add
             (Math_round
                (js_div (js_mul (basePrice_of amount) platformFeePercentage) (Fin 100)))
             (Math_round
                (js_mul (totalStripeFee_of amount)
                   (js_div
                      (Math_round
                         (js_div (js_mul (basePrice_of amount) platformFeePercentage) (Fin 100)))
                      (basePrice_of amount)))))\<rparr>"
  by (simp only: calculateFees_with_def Let_def totalStripeFee_of_def basePrice_of_def)

lemma js_le_PosInf: "js_le x PosInf \<longleftrightarrow> x \<noteq> NaN"
  by (cases x) simp_all

lemma js_le_NegInf: "js_le NegInf x \<longleftrightarrow> x \<noteq> NaN"
  by (cases x) simp_all

lemma Math_round_mono:
  assumes "js_le x y"
  shows "js_le (Math_round x) (Math_round y)"
proof (cases x)
  case (Fin a)
  show ?thesis
  proof (cases y)
    case (Fin b)
    then have "a \<le> b" using assms \<open>x = Fin a\<close> by simp
    then have "a + 1 / 2 \<le> b + 1 / 2" by simp
    then have "\<lfloor>a + 1 / 2\<rfloor> \<le> \<lfloor>b + 1 / 2\<rfloor>" by (rule floor_mono)
    then show ?thesis using Fin \<open>x = Fin a\<close> by simp
  qed (use assms \<open>x = Fin a\<close> in simp_all)
next
  case PosInf
  then show ?thesis using assms by (cases y) simp_all
next
  case NegInf
  then show ?thesis using assms by (cases y) simp_all
next
  case NaN
  then show ?thesis using assms by simp
qed

lemma js_div_pos_mono:
  assumes "js_le x y" "0 < k"
  shows "js_le (js_div x (Fin k)) (js_div y (Fin k))"
proof (cases x)
  case (Fin a)
  show ?thesis
  proof (cases y)
    case (Fin b)
    then have "a \<le> b" using assms(1) \<open>x = Fin a\<close> by simp
    then have "a / k \<le> b / k" using assms(2) by (simp add: divide_right_mono)
    then have "js_le (fl (a / k)) (fl (b / k))" by (rule fl_mono)
    then show ?thesis using Fin \<open>x = Fin a\<close> assms(2) by simp
  next
    case PosInf
    then show ?thesis using \<open>x = Fin a\<close> assms(2)
      by (simp add: signed_inf_def js_le_PosInf fl_not_NaN)
  qed (use assms \<open>x = Fin a\<close> in simp_all)
next
  case PosInf
  then show ?thesis using assms by (cases y) (simp_all add: signed_inf_def)
next
  case NegInf
  then show ?thesis using assms
    by (cases y) (simp_all add: signed_inf_def js_le_NegInf fl_not_NaN)
qed (use assms in simp_all)

lemma calculatePriceWithStripeFees_mono:
  assumes "a \<le> b"
  shows "js_le (calculatePriceWithStripeFees (Fin a)) (calculatePriceWithStripeFees (Fin b))"
proof -
  have "a + 30 \<le> b + 30" using assms by simp
  then have "js_le (fl (a + 30)) (fl (b + 30))" by (rule fl_mono)
  then have "js_le (js_div (fl (a + 30)) (Fin (8745990476353503 / 9007199254740992)))
      (js_div (fl (b + 30)) (Fin (8745990476353503 / 9007199254740992)))"
    by (rule js_div_pos_mono) simp
  then show ?thesis
    unfolding calculatePriceWithStripeFees_Fin by (rule Math_round_mono)
qed

lemma calculatePriceWithStripeFees_integer_or_infinite:
  "is_integer (calculatePriceWithStripeFees (Fin a)) \<or>
   calculatePriceWithStripeFees (Fin a) = PosInf \<or>
   calculatePriceWithStripeFees (Fin a) = NegInf"
proof -
  define k :: rat where "k = 8745990476353503 / 9007199254740992"
  have k: "k \<noteq> 0" "\<not> k < 0" by (simp_all add: k_def)
  have "is_integer (Math_round (js_div (fl (a + 30)) (Fin k))) \<or>
      Math_round (js_div (fl (a + 30)) (Fin k)) = PosInf \<or>
      Math_round (js_div (fl (a + 30)) (Fin k)) = NegInf"
  proof (cases "fl (a + 30)")
    case (Fin s)
    then show ?thesis using k by (cases "fl (s / k)") (simp_all add: fl_not_NaN)
  next
    case PosInf
    then show ?thesis using k by (simp add: signed_inf_def)
  next
    case NegInf
    then show ?thesis using k by (simp add: signed_inf_def)
  next
    case NaN
    then show ?thesis by (simp add: fl_not_NaN)
  qed
  then show ?thesis by (simp only: calculatePriceWithStripeFees_Fin k_def)
qed

lemma rnd_rel_lower:
  assumes "pow2 (- 1022) \<le> x"
  shows "x * (1 - 1 / 2 ^ 53) \<le> rnd x"
proof -
  have x: "0 < x" using assms pow2_pos [of "- 1022"] by simp
  have e: "- 1022 \<le> ilog2 x" using assms by (rule ilog2_ge)
  then have u: "ulp_exp x = ilog2 x - 52" using x by (simp add: ulp_exp_def)
  have "\<bar>rnd x - x\<bar> \<le> pow2 (ulp_exp x) / 2" using x by (intro rnd_err) simp
  moreover have "pow2 (ulp_exp x) / 2 = pow2 (ilog2 x) / 2 ^ 53"
    unfolding u by (simp add: pow2_diff pow2_num)
  moreover have "pow2 (ilog2 x) \<le> x" using ilog2_bounds [OF x] by simp
  then have "pow2 (ilog2 x) / 2 ^ 53 \<le> x / 2 ^ 53" by (simp add: divide_right_mono)
  ultimately have "x - x / 2 ^ 53 \<le> rnd x" by linarith
  then show ?thesis by (simp add: algebra_simps)
qed

lemma fl_nonneg_cases:
  assumes "0 \<le> x"
  shows "fl x = PosInf \<or> fl x = Fin (rnd x)"
proof -
  have "0 \<le> rnd x" using assms by (rule rnd_nonneg)
  then have "\<not> rnd x \<le> - pow2 1024" using pow2_pos [of 1024] by linarith
  then show ?thesis by (simp add: fl_def Let_def)
qed

lemma calculatePriceWithStripeFees_lower:
  fixes x :: rat
  assumes i: "x = of_int n" and x30: "30 \<le> x"
  shows "js_le (Fin x)
    (Math_round (js_div (fl x) (Fin (8745990476353503 / 9007199254740992))))"
proof -
  define k0 :: rat where "k0 = 8745990476353503 / 9007199254740992"
  define eps :: rat where "eps = 1 / 2 ^ 53"
  have k0: "0 < k0" by (simp add: k0_def)
  have c: "1 \<le> (1 - eps) * (1 - eps) / k0" by (simp add: k0_def eps_def)
  have xn: "pow2 (- 1022) \<le> x"
  proof -
    have "pow2 (- 1022) \<le> pow2 0" by (rule pow2_mono) simp
    then show ?thesis using x30 by (simp add: pow2_0)
  qed
  have s_lo: "x * (1 - eps) \<le> rnd x" unfolding eps_def using xn by (rule rnd_rel_lower)
  have s30: "30 \<le> rnd x"
  proof -
    have "rnd (of_int 30 * pow2 0) \<le> rnd x" using x30 by (intro rnd_mono) (simp add: pow2_0)
    moreover have "rnd (of_int 30 * pow2 0) = of_int 30 * pow2 0" by (rule rnd_exact) simp_all
    ultimately show ?thesis by (simp add: pow2_0)
  qed
  consider "fl x = PosInf" | "fl x = Fin (rnd x)" using fl_nonneg_cases [of x] x30 by auto
  then show ?thesis
  proof cases
    case 1
    then show ?thesis by (simp add: signed_inf_def)
  next
    case 2
    define s where "s = rnd x"
    have sk: "1 \<le> s / k0"
    proof -
      have "k0 \<le> s" using s30 by (simp add: s_def k0_def)
      then show ?thesis using k0 by (simp add: pos_le_divide_eq)
    qed
    have qn: "pow2 (- 1022) \<le> s / k0"
    proof -
      have "pow2 (- 1022) \<le> pow2 0" by (rule pow2_mono) simp
      then show ?thesis using sk by (simp add: pow2_0)
    qed
    have q_lo: "s / k0 * (1 - eps) \<le> rnd (s / k0)"
      unfolding eps_def using qn by (rule rnd_rel_lower)
    have "x * 1 \<le> x * ((1 - eps) * (1 - eps) / k0)"
      using c x30 by (intro mult_left_mono) simp_all
    also have "\<dots> = x * (1 - eps) / k0 * (1 - eps)" by simp
    also have "\<dots> \<le> s / k0 * (1 - eps)"
    proof -
      have "x * (1 - eps) / k0 \<le> s / k0"
        using s_lo k0 by (simp add: s_def divide_right_mono)
      moreover have "0 \<le> 1 - eps" by (simp add: eps_def)
      ultimately show ?thesis by (rule mult_right_mono)
    qed
    also have "\<dots> \<le> rnd (s / k0)" by (rule q_lo)
    finally have xq: "x \<le> rnd (s / k0)" by simp
    have div: "js_div (fl x) (Fin k0) = fl (s / k0)" using 2 k0 by (simp add: s_def)
    consider "fl (s / k0) = PosInf" | "fl (s / k0) = Fin (rnd (s / k0))"
      using fl_nonneg_cases [of "s / k0"] sk by auto
    then show ?thesis
    proof cases
      case 1
      then show ?thesis using div by (simp add: k0_def)
    next
      case 2
      have "of_int n + 1 / 2 \<le> rnd (s / k0) + 1 / 2" using xq i by simp
      then have "n \<le> \<lfloor>rnd (s / k0) + 1 / 2\<rfloor>" by (simp add: le_floor_iff)
      then have "x \<le> of_int \<lfloor>rnd (s / k0) + 1 / 2\<rfloor>" unfolding i by (simp only: of_int_le_iff)
      then show ?thesis using div 2 by (simp add: k0_def)
    qed
  qed
qed

section \<open>The split at every amount but 31\<close>

text \<open>
  For an integer amount from 0 below \<open>2^53\<close>, every intermediate value of
  \<open>calculateFees\<close> is bounded by exactly representable numbers, so that no operation
  overflows and the two final operations, on integers, are exact.
\<close>

lemma fl_Fin_rnd: "fl x = Fin y \<Longrightarrow> rnd x = y"
  by (simp add: fl_def Let_def split: if_splits)

lemma fl_Fin_range: "fl x = Fin y \<Longrightarrow> - pow2 1024 < y \<and> y < pow2 1024"
  by (simp add: fl_def Let_def not_le split: if_splits)

lemma fl_sandwich:
  assumes "lo \<le> x" "x \<le> hi" "fl lo = Fin lo" "fl hi = Fin hi"
  shows "fl x = Fin (rnd x) \<and> lo \<le> rnd x \<and> rnd x \<le> hi"
proof -
  have "rnd lo \<le> rnd x" using assms(1) by (rule rnd_mono)
  then have 1: "lo \<le> rnd x" using fl_Fin_rnd [OF assms(3)] by simp
  have "rnd x \<le> rnd hi" using assms(2) by (rule rnd_mono)
  then have 2: "rnd x \<le> hi" using fl_Fin_rnd [OF assms(4)] by simp
  have "- pow2 1024 < lo" "hi < pow2 1024"
    using fl_Fin_range [OF assms(3)] fl_Fin_range [OF assms(4)] by simp_all
  then have "\<not> pow2 1024 \<le> rnd x" "\<not> rnd x \<le> - pow2 1024" using 1 2 by linarith+
  then show ?thesis using 1 2 by (simp add: fl_def Let_def)
qed

lemma fl_scaled_int:
  assumes "\<bar>of_int n :: rat\<bar> < 2 ^ 53" "- 1074 \<le> k" "k \<le> 970"
  shows "fl (of_int n * pow2 k) = Fin (of_int n * pow2 k)"
proof -
  have "\<bar>(of_int n :: rat)\<bar> < of_int (2 ^ 53)" using assms(1) by simp
  then have "(of_int \<bar>n\<bar> :: rat) < of_int (2 ^ 53)" by simp
  then have "\<bar>n\<bar> < 2 ^ 53" by (simp only: of_int_less_iff)
  then show ?thesis using assms(2,3) by (intro fl_exact)
qed

lemma fl_of_int:
  assumes "\<bar>of_int n :: rat\<bar> \<le> 2 ^ 53"
  shows "fl (of_int n) = Fin (of_int n)"
proof -
  have "\<bar>(of_int n :: rat)\<bar> \<le> of_int (2 ^ 53)" using assms(1) by simp
  then have "(of_int \<bar>n\<bar> :: rat) \<le> of_int (2 ^ 53)" by simp
  then have "\<bar>n\<bar> \<le> 2 ^ 53" by (simp only: of_int_le_iff)
  then show ?thesis by (rule fl_int)
qed

lemma round_ge: "of_int l \<le> a \<Longrightarrow> l \<le> \<lfloor>a + 1 / 2\<rfloor>"
  by (simp add: le_floor_iff) 

lemma round_le:
  assumes "a \<le> of_int h"
  shows "\<lfloor>a + 1 / 2\<rfloor> \<le> h"
proof -
  have "a + 1 / 2 < of_int h + 1" using assms by simp
  then show ?thesis by (simp add: floor_le_iff)
qed

lemma round_upper: "of_int \<lfloor>a + 1 / 2\<rfloor> \<le> a + 1 / 2"
  by (rule of_int_floor_le)

lemma round_lower: "a - 1 / 2 < of_int \<lfloor>a + 1 / 2\<rfloor>"
  using floor_correct [of "a + 1 / 2"] by linarith

lemma totalStripeFee_of_Fin:
  fixes c :: int
  assumes "0 \<le> c" "c < 2 ^ 53"
  shows "\<exists>T. totalStripeFee_of (Fin (of_int c)) = Fin (of_int T) \<and> 30 \<le> T \<and>
           of_int T \<le> (of_int c :: rat) / 16 + 61 / 2"
proof -
  define x :: rat where "x = of_int c"
  have x0: "0 \<le> x" using assms(1) by (simp add: x_def)
  have "(of_int c :: rat) < of_int (2 ^ 53)" using assms(2) by (simp only: of_int_less_iff)
  then have x53: "x < 2 ^ 53" by (simp add: x_def)
  have ac: "\<bar>of_int c :: rat\<bar> < 2 ^ 53" using x0 x53 by (simp add: x_def)
  define SPF :: rat where "SPF = 6530219459687219 / 2251799813685248"
  define a1 where "a1 = rnd (x * SPF)"
  have "fl (x * SPF) = Fin (rnd (x * SPF)) \<and> 0 \<le> rnd (x * SPF) \<and>
      rnd (x * SPF) \<le> of_int c * pow2 2"
  proof (rule fl_sandwich)
    show "0 \<le> x * SPF" using x0 by (simp add: SPF_def)
    show "x * SPF \<le> of_int c * pow2 2" using x0 by (simp add: SPF_def x_def pow2_num)
    show "fl 0 = Fin 0" by (rule fl_0)
    show "fl (of_int c * pow2 2) = Fin (of_int c * pow2 2)"
      using ac by (intro fl_scaled_int) simp_all
  qed
  then have m: "js_mul (Fin x) STRIPE_PERCENTAGE_FEE = Fin a1"
    and a1: "0 \<le> a1" "a1 \<le> 4 * x"
    by (simp_all add: STRIPE_PERCENTAGE_FEE_value a1_def SPF_def x_def pow2_num)
  define a2 where "a2 = rnd (a1 / 100)"
  have "fl (a1 / 100) = Fin (rnd (a1 / 100)) \<and> 0 \<le> rnd (a1 / 100) \<and>
      rnd (a1 / 100) \<le> of_int c * pow2 (- 4)"
  proof (rule fl_sandwich)
    show "0 \<le> a1 / 100" using a1 by simp
    show "a1 / 100 \<le> of_int c * pow2 (- 4)" using a1 x0 by (simp add: x_def pow2_num)
    show "fl 0 = Fin 0" by (rule fl_0)
    show "fl (of_int c * pow2 (- 4)) = Fin (of_int c * pow2 (- 4))"
      using ac by (intro fl_scaled_int) simp_all
  qed
  then have d: "js_div (Fin a1) (Fin 100) = Fin a2"
    and a2: "0 \<le> a2" "a2 \<le> x / 16"
    by (simp_all add: a2_def x_def pow2_num)
  define k where "k = \<lfloor>a2 + 1 / 2\<rfloor>"
  have r: "Math_round (Fin a2) = Fin (of_int k)" by (simp add: k_def)
  have k0: "0 \<le> k" unfolding k_def using a2(1) by (intro round_ge) simp
  have ku: "of_int k \<le> x / 16 + 1 / 2"
    using round_upper [of a2] a2(2) unfolding k_def by linarith
  have "fl (of_int (k + 30)) = Fin (of_int (k + 30))"
  proof (rule fl_of_int)
    have "(0::rat) \<le> of_int k" using k0 by simp
    then show "\<bar>of_int (k + 30) :: rat\<bar> \<le> 2 ^ 53" using ku x53 by simp
  qed
  then have s: "js_add (Fin (of_int k)) (Fin 30) = Fin (of_int (k + 30))" by simp
  have "totalStripeFee_of (Fin (of_int c)) = Fin (of_int (k + 30))"
    by (simp only: totalStripeFee_of_def STRIPE_FIXED_FEE_CENTS_def m d r s flip: x_def)
  moreover have "30 \<le> k + 30" using k0 by simp
  moreover have "of_int (k + 30) \<le> (of_int c :: rat) / 16 + 61 / 2"
    using ku by (simp add: x_def)
  ultimately show ?thesis by blast
qed


lemma basePrice_of_Fin:
  fixes c :: int
  assumes "0 \<le> c" "c < 2 ^ 53"
  shows "\<exists>B. basePrice_of (Fin (of_int c)) = Fin (of_int B) \<and> - 30 \<le> B \<and> B \<le> c - 30"
proof -
  define x :: rat where "x = of_int c"
  have x0: "0 \<le> x" using assms(1) by (simp add: x_def)
  have "(of_int c :: rat) < of_int (2 ^ 53)" using assms(2) by (simp only: of_int_less_iff)
  then have x53: "x < 2 ^ 53" by (simp add: x_def)
  define K1 :: rat where "K1 = 289637751035265 / 281474976710656"
  define a3 where "a3 = rnd (x / K1)"
  have "fl (x / K1) = Fin (rnd (x / K1)) \<and> 0 \<le> rnd (x / K1) \<and> rnd (x / K1) \<le> of_int c"
  proof (rule fl_sandwich)
    show "0 \<le> x / K1" using x0 by (simp add: K1_def)
    show "x / K1 \<le> of_int c" using x0 by (simp add: K1_def x_def)
    show "fl 0 = Fin 0" by (rule fl_0)
    show "fl (of_int c) = Fin (of_int c)" using x0 x53 by (intro fl_of_int) (simp add: x_def)
  qed
  then have d: "js_div (Fin x) (js_add (Fin 1) (js_div STRIPE_PERCENTAGE_FEE (Fin 100))) = Fin a3"
    and a3: "0 \<le> a3" "a3 \<le> x"
    by (simp_all add: one_plus_value a3_def K1_def x_def)
  define a4 where "a4 = rnd (a3 - 30)"
  have "fl (a3 - 30) = Fin (rnd (a3 - 30)) \<and> of_int (- 30) \<le> rnd (a3 - 30) \<and>
      rnd (a3 - 30) \<le> of_int (c - 30)"
  proof (rule fl_sandwich)
    show "of_int (- 30) \<le> a3 - 30" using a3 by simp
    show "a3 - 30 \<le> of_int (c - 30)" using a3 by (simp add: x_def)
    show "fl (of_int (- 30)) = Fin (of_int (- 30))" by (rule fl_of_int) simp
    show "fl (of_int (c - 30)) = Fin (of_int (c - 30))"
      using x0 x53 by (intro fl_of_int) (simp add: x_def abs_le_iff)
  qed
  then have s: "js_sub (Fin a3) (Fin 30) = Fin a4"
    and a4: "of_int (- 30) \<le> a4" "a4 \<le> of_int (c - 30)"
    by (simp_all add: a4_def js_sub_def)
  define B where "B = \<lfloor>a4 + 1 / 2\<rfloor>"
  have r: "Math_round (Fin a4) = Fin (of_int B)" by (simp add: B_def)
  have "basePrice_of (Fin (of_int c)) = Fin (of_int B)"
    by (simp only: basePrice_of_def STRIPE_FIXED_FEE_CENTS_def d s r flip: x_def)
  moreover have "- 30 \<le> B" unfolding B_def using a4(1) by (rule round_ge)
  moreover have "B \<le> c - 30" unfolding B_def using a4(2) by (rule round_le)
  ultimately show ?thesis by blast
qed

lemma js_sub_mono:
  assumes "js_le x y"
  shows "js_le (js_sub x (Fin k)) (js_sub y (Fin k))"
proof (cases x)
  case (Fin a)
  show ?thesis
  proof (cases y)
    case (Fin b)
    then have "a - k \<le> b - k" using assms \<open>x = Fin a\<close> by simp
    then have "js_le (fl (a - k)) (fl (b - k))" by (rule fl_mono)
    then show ?thesis using Fin \<open>x = Fin a\<close> by (simp add: js_sub_def)
  next
    case PosInf
    then show ?thesis using \<open>x = Fin a\<close>
      by (simp add: js_sub_def js_le_PosInf fl_not_NaN)
  qed (use assms \<open>x = Fin a\<close> in simp_all)
next
  case PosInf
  then show ?thesis using assms by (cases y) (simp_all add: js_sub_def)
next
  case NegInf
  then show ?thesis using assms
    by (cases y) (simp_all add: js_sub_def js_le_NegInf fl_not_NaN)
next
  case NaN
  then show ?thesis using assms by simp
qed

lemma basePrice_of_mono:
  assumes "a \<le> b"
  shows "js_le (basePrice_of (Fin a)) (basePrice_of (Fin b))"
proof -
  have "js_le (Fin a) (Fin b)" using assms by simp
  then have "js_le (js_div (Fin a) (Fin (289637751035265 / 281474976710656)))
      (js_div (Fin b) (Fin (289637751035265 / 281474976710656)))"
    by (rule js_div_pos_mono) simp
  then have "js_le
      (js_sub (js_div (Fin a) (Fin (289637751035265 / 281474976710656))) (Fin 30))
      (js_sub (js_div (Fin b) (Fin (289637751035265 / 281474976710656))) (Fin 30))"
    by (rule js_sub_mono)
  then have "js_le
      (Math_round (js_sub (js_div (Fin a) (Fin (289637751035265 / 281474976710656))) (Fin 30)))
      (Math_round (js_sub (js_div (Fin b) (Fin (289637751035265 / 281474976710656))) (Fin 30)))"
    by (rule Math_round_mono)
  then show ?thesis
    by (simp only: basePrice_of_def one_plus_value STRIPE_FIXED_FEE_CENTS_def)
qed

lemma basePrice_of_sign:
  fixes c B :: int
  assumes "basePrice_of (Fin (of_int c)) = Fin (of_int B)"
  shows "c \<le> 30 \<Longrightarrow> B \<le> - 1" and "32 \<le> c \<Longrightarrow> 1 \<le> B"
proof -
  assume "c \<le> 30"
  then have "(of_int c :: rat) \<le> of_int 30" by (simp only: of_int_le_iff)
  then have "(of_int c :: rat) \<le> 30" by simp
  then have "js_le (basePrice_of (Fin (of_int c))) (basePrice_of (Fin 30))"
    by (rule basePrice_of_mono)
  then have "(of_int B :: rat) \<le> of_int (- 1)" by (simp add: assms basePrice_of_30)
  then show "B \<le> - 1" by (simp only: of_int_le_iff)
next
  assume "32 \<le> c"
  then have "(of_int 32 :: rat) \<le> of_int c" by (simp only: of_int_le_iff)
  then have "(32 :: rat) \<le> of_int c" by simp
  then have "js_le (basePrice_of (Fin 32)) (basePrice_of (Fin (of_int c)))"
    by (rule basePrice_of_mono)
  then have "(of_int 1 :: rat) \<le> of_int B" by (simp add: assms basePrice_of_32)
  then show "1 \<le> B" by (simp only: of_int_le_iff)
qed


lemma basePlatformFee_of_nonneg:
  fixes B :: int
  assumes b: "basePrice_of amount = Fin (of_int B)" and "0 \<le> B" "B < 2 ^ 53"
  shows "\<exists>P. basePlatformFee_of amount = Fin (of_int P) \<and> 0 \<le> P \<and>
           of_int P \<le> (of_int B :: rat) / 4 + 1 / 2"
proof -
  define x :: rat where "x = of_int B"
  have x0: "0 \<le> x" using assms(2) by (simp add: x_def)
  have "(of_int B :: rat) < of_int (2 ^ 53)" using assms(3) by (simp only: of_int_less_iff)
  then have aB: "\<bar>of_int B :: rat\<bar> < 2 ^ 53" using x0 by (simp add: x_def)
  define a5 where "a5 = rnd (x * 15)"
  have "fl (x * 15) = Fin (rnd (x * 15)) \<and> 0 \<le> rnd (x * 15) \<and> rnd (x * 15) \<le> of_int B * pow2 4"
  proof (rule fl_sandwich)
    show "0 \<le> x * 15" using x0 by simp
    show "x * 15 \<le> of_int B * pow2 4" using x0 by (simp add: x_def pow2_num)
    show "fl 0 = Fin 0" by (rule fl_0)
    show "fl (of_int B * pow2 4) = Fin (of_int B * pow2 4)"
      using aB by (intro fl_scaled_int) simp_all
  qed
  then have m: "js_mul (Fin x) (Fin 15) = Fin a5" and a5: "0 \<le> a5" "a5 \<le> 16 * x"
    by (simp_all add: a5_def x_def pow2_num)
  define a6 where "a6 = rnd (a5 / 100)"
  have "fl (a5 / 100) = Fin (rnd (a5 / 100)) \<and> 0 \<le> rnd (a5 / 100) \<and>
      rnd (a5 / 100) \<le> of_int B * pow2 (- 2)"
  proof (rule fl_sandwich)
    show "0 \<le> a5 / 100" using a5 by simp
    show "a5 / 100 \<le> of_int B * pow2 (- 2)" using a5 x0 by (simp add: x_def pow2_num)
    show "fl 0 = Fin 0" by (rule fl_0)
    show "fl (of_int B * pow2 (- 2)) = Fin (of_int B * pow2 (- 2))"
      using aB by (intro fl_scaled_int) simp_all
  qed
  then have d: "js_div (Fin a5) (Fin 100) = Fin a6" and a6: "0 \<le> a6" "a6 \<le> x / 4"
    by (simp_all add: a6_def x_def pow2_num)
  define P where "P = \<lfloor>a6 + 1 / 2\<rfloor>"
  have r: "Math_round (Fin a6) = Fin (of_int P)" by (simp add: P_def)
  have "basePlatformFee_of amount = Fin (of_int P)"
    by (simp only: basePlatformFee_of_def PLATFORM_FEE_PERCENTAGE_def b m d r flip: x_def)
  moreover have "0 \<le> P" unfolding P_def using a6(1) by (intro round_ge) simp
  moreover have "of_int P \<le> (of_int B :: rat) / 4 + 1 / 2"
    using round_upper [of a6] a6(2) unfolding P_def x_def by linarith
  ultimately show ?thesis by blast
qed

lemma basePlatformFee_of_nonpos:
  fixes B :: int
  assumes b: "basePrice_of amount = Fin (of_int B)" and "B \<le> 0" "- (2 ^ 53) < B"
  shows "\<exists>P. basePlatformFee_of amount = Fin (of_int P) \<and> P \<le> 0 \<and>
           (of_int B :: rat) / 4 - 1 / 2 \<le> of_int P"
proof -
  define x :: rat where "x = of_int B"
  have x0: "x \<le> 0" using assms(2) by (simp add: x_def)
  have "(of_int (- (2 ^ 53)) :: rat) < of_int B" using assms(3) by (simp only: of_int_less_iff)
  then have aB: "\<bar>of_int B :: rat\<bar> < 2 ^ 53" using x0 by (simp add: x_def)
  define a5 where "a5 = rnd (x * 15)"
  have "fl (x * 15) = Fin (rnd (x * 15)) \<and> of_int B * pow2 4 \<le> rnd (x * 15) \<and> rnd (x * 15) \<le> 0"
  proof (rule fl_sandwich)
    show "x * 15 \<le> 0" using x0 by simp
    show "of_int B * pow2 4 \<le> x * 15" using x0 by (simp add: x_def pow2_num)
    show "fl 0 = Fin 0" by (rule fl_0)
    show "fl (of_int B * pow2 4) = Fin (of_int B * pow2 4)"
      using aB by (intro fl_scaled_int) simp_all
  qed
  then have m: "js_mul (Fin x) (Fin 15) = Fin a5" and a5: "a5 \<le> 0" "16 * x \<le> a5"
    by (simp_all add: a5_def x_def pow2_num)
  define a6 where "a6 = rnd (a5 / 100)"
  have "fl (a5 / 100) = Fin (rnd (a5 / 100)) \<and> of_int B * pow2 (- 2) \<le> rnd (a5 / 100) \<and>
      rnd (a5 / 100) \<le> 0"
  proof (rule fl_sandwich)
    show "a5 / 100 \<le> 0" using a5 by simp
    show "of_int B * pow2 (- 2) \<le> a5 / 100" using a5 x0 by (simp add: x_def pow2_num)
    show "fl 0 = Fin 0" by (rule fl_0)
    show "fl (of_int B * pow2 (- 2)) = Fin (of_int B * pow2 (- 2))"
      using aB by (intro fl_scaled_int) simp_all
  qed
  then have d: "js_div (Fin a5) (Fin 100) = Fin a6" and a6: "a6 \<le> 0" "x / 4 \<le> a6"
    by (simp_all add: a6_def x_def pow2_num)
  define P where "P = \<lfloor>a6 + 1 / 2\<rfloor>"
  have r: "Math_round (Fin a6) = Fin (of_int P)" by (simp add: P_def)
  have "basePlatformFee_of amount = Fin (of_int P)"
    by (simp only: basePlatformFee_of_def PLATFORM_FEE_PERCENTAGE_def b m d r flip: x_def)
  moreover have "P \<le> 0" unfolding P_def using a6(1) by (intro round_le) simp
  moreover have "(of_int B :: rat) / 4 - 1 / 2 \<le> of_int P"
    using round_lower [of a6] a6(2) unfolding P_def x_def by linarith
  ultimately show ?thesis by blast
qed

lemma platformShareOfStripeFee_of_Fin:
  fixes T B P :: int
  assumes t: "totalStripeFee_of amount = Fin (of_int T)" and "0 \<le> T" "T \<le> 2 ^ 53"
    and b: "basePrice_of amount = Fin (of_int B)" and "B \<noteq> 0"
    and p: "basePlatformFee_of amount = Fin (of_int P)"
    and ratio: "0 \<le> (of_int P :: rat) / of_int B" "(of_int P :: rat) / of_int B \<le> 1"
  shows "\<exists>S. platformShareOfStripeFee_of amount = Fin (of_int S) \<and> 0 \<le> S \<and> S \<le> T"
proof -
  define q :: rat where "q = of_int P / of_int B"
  define y :: rat where "y = of_int T"
  have y0: "0 \<le> y" using assms(2) by (simp add: y_def)
  have "(of_int T :: rat) \<le> of_int (2 ^ 53)" using assms(3) by (simp only: of_int_le_iff)
  then have aT: "\<bar>of_int T :: rat\<bar> \<le> 2 ^ 53" using y0 by (simp add: y_def)
  have Bnz: "(of_int B :: rat) \<noteq> 0" using assms(5) by simp
  define r where "r = rnd q"
  have "fl q = Fin (rnd q) \<and> 0 \<le> rnd q \<and> rnd q \<le> of_int 1"
  proof (rule fl_sandwich)
    show "0 \<le> q" using ratio(1) by (simp add: q_def)
    show "q \<le> of_int 1" using ratio(2) by (simp add: q_def)
    show "fl 0 = Fin 0" by (rule fl_0)
    show "fl (of_int 1) = Fin (of_int 1)" by (rule fl_of_int) simp
  qed
  then have d: "js_div (Fin (of_int P)) (Fin (of_int B)) = Fin r" and r: "0 \<le> r" "r \<le> 1"
    using Bnz by (simp_all add: r_def q_def)
  define a7 where "a7 = rnd (y * r)"
  have "fl (y * r) = Fin (rnd (y * r)) \<and> 0 \<le> rnd (y * r) \<and> rnd (y * r) \<le> of_int T"
  proof (rule fl_sandwich)
    show "0 \<le> y * r" using y0 r by simp
    show "y * r \<le> of_int T" using y0 r by (simp add: y_def mult_left_le)
    show "fl 0 = Fin 0" by (rule fl_0)
    show "fl (of_int T) = Fin (of_int T)" using aT by (rule fl_of_int)
  qed
  then have m: "js_mul (Fin y) (Fin r) = Fin a7" and a7: "0 \<le> a7" "a7 \<le> of_int T"
    by (simp_all add: a7_def)
  define S where "S = \<lfloor>a7 + 1 / 2\<rfloor>"
  have rr: "Math_round (Fin a7) = Fin (of_int S)" by (simp add: S_def)
  have "platformShareOfStripeFee_of amount = Fin (of_int S)"
    by (simp only: platformShareOfStripeFee_of_def t b p d m rr flip: y_def)
  moreover have "0 \<le> S" unfolding S_def using a7(1) by (intro round_ge) simp
  moreover have "S \<le> T" unfolding S_def using a7(2) by (rule round_le)
  ultimately show ?thesis by blast
qed


lemma js_sub_Fin: "js_sub (Fin a) (Fin b) = fl (a - b)"
  by (simp add: js_sub_def)

lemma calculateFees_shape:
  fixes c :: int
  assumes "0 \<le> c" "c < 2 ^ 53" "c \<noteq> 31"
  shows "\<exists>B P S T.
    basePrice_of (Fin (of_int c)) = Fin (of_int B) \<and> B \<noteq> 0 \<and> B \<le> c - 30 \<and>
    basePlatformFee_of (Fin (of_int c)) = Fin (of_int P) \<and>
    platformShareOfStripeFee_of (Fin (of_int c)) = Fin (of_int S) \<and>
    totalStripeFee_of (Fin (of_int c)) = Fin (of_int T) \<and>
    0 \<le> S \<and> S \<le> T \<and> of_int T \<le> (of_int c :: rat) / 16 + 61 / 2 \<and>
    (32 \<le> c \<longrightarrow> 1 \<le> B \<and> 0 \<le> P \<and> of_int P \<le> (of_int B :: rat) / 4 + 1 / 2) \<and>
    calculateFees (Fin (of_int c)) =
      \<lparr>platformFee = Fin (of_int (P + S)), instructorAmount = Fin (of_int (c - (P + S)))\<rparr>"
proof -
  have "(of_int c :: rat) < of_int (2 ^ 53)" using assms(2) by (simp only: of_int_less_iff)
  then have c53: "(of_int c :: rat) < 2 ^ 53" by simp
  have c0: "(0 :: rat) \<le> of_int c" using assms(1) by simp
  obtain T where T: "totalStripeFee_of (Fin (of_int c)) = Fin (of_int T)" "30 \<le> T"
    "of_int T \<le> (of_int c :: rat) / 16 + 61 / 2"
    using totalStripeFee_of_Fin [OF assms(1,2)] by blast
  obtain B where B: "basePrice_of (Fin (of_int c)) = Fin (of_int B)" "- 30 \<le> B" "B \<le> c - 30"
    using basePrice_of_Fin [OF assms(1,2)] by blast
  have T0: "(0 :: rat) \<le> of_int T" using T(2) by simp
  have TB: "(of_int T :: rat) \<le> of_int (2 ^ 53)" using T(3) c53 by simp
  then have T53: "T \<le> 2 ^ 53" by (simp only: of_int_le_iff)
  have Bc: "(of_int B :: rat) \<le> of_int c - 30"
  proof -
    have "(of_int B :: rat) \<le> of_int (c - 30)" using B(3) by (simp only: of_int_le_iff)
    then show ?thesis by simp
  qed
  have Bl: "(- 30 :: rat) \<le> of_int B"
  proof -
    have "(of_int (- 30) :: rat) \<le> of_int B" using B(2) by (simp only: of_int_le_iff)
    then show ?thesis by simp
  qed
  consider (small) "c \<le> 30" | (large) "32 \<le> c" using assms(3) by linarith
  then show ?thesis
  proof cases
    case small
    then have Bneg: "B \<le> - 1" using basePrice_of_sign(1) [OF B(1)] by simp
    then have Bq: "(of_int B :: rat) \<le> - 1"
    proof -
      have "(of_int B :: rat) \<le> of_int (- 1)" using Bneg by (simp only: of_int_le_iff)
      then show ?thesis by simp
    qed
    have cs: "(of_int c :: rat) \<le> 30"
    proof -
      have "(of_int c :: rat) \<le> of_int 30" using small by (simp only: of_int_le_iff)
      then show ?thesis by simp
    qed
    obtain P where P: "basePlatformFee_of (Fin (of_int c)) = Fin (of_int P)" "P \<le> 0"
      "(of_int B :: rat) / 4 - 1 / 2 \<le> of_int P"
      using basePlatformFee_of_nonpos [OF B(1)] Bneg B(2) by auto
    have Pq: "(of_int P :: rat) \<le> 0" using P(2) by simp
    have ratio: "0 \<le> (of_int P :: rat) / of_int B" "(of_int P :: rat) / of_int B \<le> 1"
    proof -
      show "0 \<le> (of_int P :: rat) / of_int B"
        using Pq Bq by (simp add: zero_le_divide_iff)
      have "(of_int B :: rat) \<le> of_int P" using P(3) Bq by linarith
      then show "(of_int P :: rat) / of_int B \<le> 1" using Bq by (simp add: neg_divide_le_eq)
    qed
    obtain S where S: "platformShareOfStripeFee_of (Fin (of_int c)) = Fin (of_int S)"
      "0 \<le> S" "S \<le> T"
      using platformShareOfStripeFee_of_Fin [OF T(1) _ T53 B(1) _ P(1) ratio] T(2) Bneg by auto
    have S0: "(0 :: rat) \<le> of_int S" using S(2) by simp
    have ST: "(of_int S :: rat) \<le> of_int T" using S(3) by (simp only: of_int_le_iff)
    have f: "fl (of_int (P + S)) = Fin (of_int (P + S))"
    proof (rule fl_of_int)
      show "\<bar>of_int (P + S) :: rat\<bar> \<le> 2 ^ 53"
        using P(3) Pq Bl S0 ST T(3) cs by (simp add: abs_le_iff)
    qed
    have g: "fl (of_int (c - (P + S))) = Fin (of_int (c - (P + S)))"
    proof (rule fl_of_int)
      show "\<bar>of_int (c - (P + S)) :: rat\<bar> \<le> 2 ^ 53"
        using P(3) Pq Bl S0 ST T(3) cs c0 by (simp add: abs_le_iff)
    qed
    have pf: "js_add (Fin (of_int P)) (Fin (of_int S)) = Fin (of_int (P + S))"
      using f by simp
    have ia: "js_sub (Fin (of_int c)) (Fin (of_int (P + S))) = Fin (of_int (c - (P + S)))"
      by (simp only: js_sub_Fin of_int_diff [symmetric] g)
    have "calculateFees (Fin (of_int c)) =
      \<lparr>platformFee = Fin (of_int (P + S)), instructorAmount = Fin (of_int (c - (P + S)))\<rparr>"
      by (simp only: calculateFees_parts P(1) S(1) pf ia)
    moreover have "B \<noteq> 0" using Bneg by simp
    moreover have "\<not> 32 \<le> c" using small by simp
    ultimately show ?thesis using B(1,3) P(1) S T(1,3) by blast
  next
    case large
    then have Bpos: "1 \<le> B" using basePrice_of_sign(2) [OF B(1)] by simp
    then have Bq: "(1 :: rat) \<le> of_int B"
    proof -
      have "(of_int 1 :: rat) \<le> of_int B" using Bpos by (simp only: of_int_le_iff)
      then show ?thesis by simp
    qed
    have B53: "B < 2 ^ 53" using B(3) assms(2) by simp
    obtain P where P: "basePlatformFee_of (Fin (of_int c)) = Fin (of_int P)" "0 \<le> P"
      "of_int P \<le> (of_int B :: rat) / 4 + 1 / 2"
      using basePlatformFee_of_nonneg [OF B(1) _ B53] Bpos by auto
    have Pq: "(0 :: rat) \<le> of_int P" using P(2) by simp
    have ratio: "0 \<le> (of_int P :: rat) / of_int B" "(of_int P :: rat) / of_int B \<le> 1"
    proof -
      show "0 \<le> (of_int P :: rat) / of_int B"
        using Pq Bq by (simp add: zero_le_divide_iff)
      have "(of_int P :: rat) \<le> of_int B" using P(3) Bq by linarith
      then show "(of_int P :: rat) / of_int B \<le> 1" using Bq by (simp add: pos_divide_le_eq)
    qed
    obtain S where S: "platformShareOfStripeFee_of (Fin (of_int c)) = Fin (of_int S)"
      "0 \<le> S" "S \<le> T"
      using platformShareOfStripeFee_of_Fin [OF T(1) _ T53 B(1) _ P(1) ratio] T(2) Bpos by auto
    have S0: "(0 :: rat) \<le> of_int S" using S(2) by simp
    have ST: "(of_int S :: rat) \<le> of_int T" using S(3) by (simp only: of_int_le_iff)
    have f: "fl (of_int (P + S)) = Fin (of_int (P + S))"
    proof (rule fl_of_int)
      show "\<bar>of_int (P + S) :: rat\<bar> \<le> 2 ^ 53"
        using P(3) Pq Bc S0 ST T(3) c53 c0 by (simp add: abs_le_iff)
    qed
    have g: "fl (of_int (c - (P + S))) = Fin (of_int (c - (P + S)))"
    proof (rule fl_of_int)
      show "\<bar>of_int (c - (P + S)) :: rat\<bar> \<le> 2 ^ 53"
        using P(3) Pq Bc S0 ST T(3) c53 c0 by (simp add: abs_le_iff)
    qed
    have pf: "js_add (Fin (of_int P)) (Fin (of_int S)) = Fin (of_int (P + S))"
      using f by simp
    have ia: "js_sub (Fin (of_int c)) (Fin (of_int (P + S))) = Fin (of_int (c - (P + S)))"
      by (simp only: js_sub_Fin of_int_diff [symmetric] g)
    have "calculateFees (Fin (of_int c)) =
      \<lparr>platformFee = Fin (of_int (P + S)), instructorAmount = Fin (of_int (c - (P + S)))\<rparr>"
      by (simp only: calculateFees_parts P(1) S(1) pf ia)
    moreover have "B \<noteq> 0" using Bpos by simp
    ultimately show ?thesis using B(1,3) P S T(1,3) Bpos by blast
  qed
qed

section \<open>The claims\<close>

subsection \<open>C1: conservation\<close>

text \<open>
  C1 claims that for every non-negative integer charge amount \<open>c\<close> the two shares
  returned by \<open>calculateFees\<close> sum to \<open>c\<close>. At the amount 31 the base price the function
  recovers is 0, the proportion \<^verbatim>\<open>basePlatformFee / basePrice\<close> is 0/0, and both shares
  are NaN: their sum is not 31.
\<close>

theorem conservation_fails_at_31:
  "calculateFees (Fin 31) = \<lparr>platformFee = NaN, instructorAmount = NaN\<rparr> \<and>
   \<not> js_eq (js_add (platformFee (calculateFees (Fin 31)))
              (instructorAmount (calculateFees (Fin 31)))) (Fin 31)"
  by (simp add: calculateFees_31)

subsection \<open>C2: the zero base price\<close>

text \<open>
  C2 claims that \<open>calculateFees\<close> has a defined result for every non-negative integer and
  that an amount whose implied base price is 0 yields the shares 0 and 0, with no division
  by zero. The amount 31 has the implied base price 0; the function divides 0 by 0 there and
  returns NaN for both shares.
\<close>

theorem zero_base_price_at_31:
  "basePrice_of (Fin 31) = Fin 0 \<and>
   js_div (basePlatformFee_of (Fin 31)) (basePrice_of (Fin 31)) = NaN \<and>
   calculateFees (Fin 31) = \<lparr>platformFee = NaN, instructorAmount = NaN\<rparr> \<and>
   calculateFees (Fin 31) \<noteq> \<lparr>platformFee = Fin 0, instructorAmount = Fin 0\<rparr>"
proof -
  have b: "basePrice_of (Fin 31) = Fin 0"
    by (rule basePrice_of_31)
  have p: "basePlatformFee_of (Fin 31) = Fin 0"
    by (simp only: basePlatformFee_of_def b PLATFORM_FEE_PERCENTAGE_def
        fees_31_step_8 fees_31_step_9 fees_31_step_10)
  show ?thesis by (simp add: b p calculateFees_31)
qed

subsection \<open>C3: the numbers sent to the payment gateway\<close>

text \<open>
  C3 claims that the checkout route sends the gateway the fee-inclusive charge amount as
  the line item and, as the application fee, the platform's share of that same charge
  amount. For a lesson of 10 dollars the route sends the line item 1061 and the application
  fee 150, the platform's share of the base price 1000; the platform's share of the charge
  amount 1061 is 159.
\<close>

theorem checkout_application_fee_at_10_dollars:
  "checkout_lesson (Fin 10) =
     \<lparr>unit_amount = Fin 1061, application_fee_amount = Fin 150,
      metadata_instructorPayoutAmount = Fin 850\<rparr> \<and>
   calculatePriceWithStripeFees (Fin 1000) = Fin 1061 \<and>
   platformFee (calculateFees (Fin 1061)) = Fin 159"
  by (simp add: checkout_lesson_def Let_def checkout_10_step_1 checkout_10_step_2
      checkout_10_step_3 checkout_10_step_4 checkout_10_step_5 calculateFees_1000
      calculateFees_1061 calculatePriceWithStripeFees_1000
      del: js_add.simps js_mul.simps js_div.simps Math_round.simps)

subsection \<open>C4: checkout and verification\<close>


subsection \<open>C5: the charge for the base price 0\<close>

text \<open>
  C5 claims that \<open>calculatePriceWithStripeFees\<close> returns 30 for the base price 0. The
  function returns 31 there, the rounded quotient of 30 by the binary64 value of
  \<^verbatim>\<open>1 - 2.9 / 100\<close>.
\<close>

theorem charge_for_zero_is_not_30:
  "calculatePriceWithStripeFees (Fin 0) \<noteq> Fin 30"
  by (simp add: calculatePriceWithStripeFees_0)

text \<open>
  C5 as amended: with the platform percentage 15, the percentage fee 2.9 and the fixed fee
  30, \<open>calculatePriceWithStripeFees\<close> returns 31 for the base price 0.
\<close>

theorem charge_for_zero_is_31:
  "PLATFORM_FEE_PERCENTAGE = Fin 15 \<and> STRIPE_FIXED_FEE_CENTS = Fin 30 \<and>
   STRIPE_PERCENTAGE_FEE = fl (29 / 10) \<and>
   calculatePriceWithStripeFees (Fin 0) = Fin 31"
  by (simp add: calculatePriceWithStripeFees_0 PLATFORM_FEE_PERCENTAGE_def
      STRIPE_FIXED_FEE_CENTS_def STRIPE_PERCENTAGE_FEE_def)

subsection \<open>C6: the side that takes the rounding\<close>

text \<open>
  C6 claims that the counterparty's share is its own rounded analytic value and the
  platform's share is the amount minus it. At the amount 10330 \<open>calculateFees\<close> gives the
  platform 1550 and the counterparty 8780. The counterparty's share rounded on its own is
  8781 as the rounded 85 percent of the amount, 8789 by the steps of \<open>calculateFees\<close> with
  the counterparty's percentage, and 8779 in exact arithmetic rounded once: none of them
  is 8780.
\<close>

theorem counterparty_share_not_rounded_on_its_own_at_10330:
  "calculateFees (Fin 10330) = \<lparr>platformFee = Fin 1550, instructorAmount = Fin 8780\<rparr> \<and>
   counterpartyShare_of_amount (Fin 10330) = Fin 8781 \<and>
   splitFees_platform_absorbs (Fin 10330) =
     \<lparr>platformFee = Fin 1541, instructorAmount = Fin 8789\<rparr> \<and>
   counterpartyShare_exact 10330 = 8779 \<and>
   instructorAmount (calculateFees (Fin 10330)) \<noteq> counterpartyShare_of_amount (Fin 10330) \<and>
   instructorAmount (calculateFees (Fin 10330)) \<noteq>
     instructorAmount (splitFees_platform_absorbs (Fin 10330)) \<and>
   instructorAmount (calculateFees (Fin 10330)) \<noteq> Fin (of_int (counterpartyShare_exact 10330))"
  by (simp add: calculateFees_10330 counterpartyShare_of_amount_10330
      splitFees_platform_absorbs_10330 counterpartyShare_exact_10330)

text \<open>
  C6 as amended: for every value of \<^verbatim>\<open>PLATFORM_FEE_PERCENTAGE\<close> and every amount, the
  platform's share is the sum of its two rounded parts, the rounded platform percentage of
  the base price and the rounded platform's part of the processor's fee, and the
  counterparty's share is the amount minus the platform's share: the rounding is taken by
  the counterparty. In the default configuration, with the percentage 15, for every integer
  amount \<open>c\<close> with \<open>0 \<le> c < 2^53\<close> other than 31 the two parts are integers \<open>P\<close> and \<open>S\<close>,
  the platform's share is \<open>P + S\<close> and the counterparty's share is \<open>c - (P + S)\<close>, both
  exactly.
\<close>

theorem rounding_on_counterparty_side:
  fixes c :: int
  shows "platformFee (calculateFees_with platformFeePercentage amount) =
     js_add
       (Math_round (js_div (js_mul (basePrice_of amount) platformFeePercentage) (Fin 100)))
       (Math_round
          (js_mul (totalStripeFee_of amount)
             (js_div
                (Math_round
                   (js_div (js_mul (basePrice_of amount) platformFeePercentage) (Fin 100)))
                (basePrice_of amount)))) \<and>
   instructorAmount (calculateFees_with platformFeePercentage amount) =
     js_sub amount (platformFee (calculateFees_with platformFeePercentage amount)) \<and>
   (0 \<le> c \<and> c < 2 ^ 53 \<and> c \<noteq> 31 \<longrightarrow>
      (\<exists>P S. basePlatformFee_of (Fin (of_int c)) = Fin (of_int P) \<and>
             platformShareOfStripeFee_of (Fin (of_int c)) = Fin (of_int S) \<and>
             platformFee (calculateFees_with PLATFORM_FEE_PERCENTAGE (Fin (of_int c))) =
               Fin (of_int (P + S)) \<and>
             instructorAmount (calculateFees_with PLATFORM_FEE_PERCENTAGE (Fin (of_int c))) =
               Fin (of_int (c - (P + S)))))"
proof (intro conjI impI)
  show "platformFee (calculateFees_with platformFeePercentage amount) =
     js_add
       (Math_round (js_div (js_mul (basePrice_of amount) platformFeePercentage) (Fin 100)))
       (Math_round
          (js_mul (totalStripeFee_of amount)
             (js_div
                (Math_round
                   (js_div (js_mul (basePrice_of amount) platformFeePercentage) (Fin 100)))
                (basePrice_of amount))))"
    by (simp add: calculateFees_with_parts)
  show "instructorAmount (calculateFees_with platformFeePercentage amount) =
      js_sub amount (platformFee (calculateFees_with platformFeePercentage amount))"
    by (simp add: calculateFees_with_parts)
next
  assume "0 \<le> c \<and> c < 2 ^ 53 \<and> c \<noteq> 31"
  then obtain P S where
    "basePlatformFee_of (Fin (of_int c)) = Fin (of_int P)"
    "platformShareOfStripeFee_of (Fin (of_int c)) = Fin (of_int S)"
    "calculateFees (Fin (of_int c)) =
      \<lparr>platformFee = Fin (of_int (P + S)), instructorAmount = Fin (of_int (c - (P + S)))\<rparr>"
    using calculateFees_shape [of c] by blast
  then have "basePlatformFee_of (Fin (of_int c)) = Fin (of_int P) \<and>
      platformShareOfStripeFee_of (Fin (of_int c)) = Fin (of_int S) \<and>
      platformFee (calculateFees_with PLATFORM_FEE_PERCENTAGE (Fin (of_int c))) =
        Fin (of_int (P + S)) \<and>
      instructorAmount (calculateFees_with PLATFORM_FEE_PERCENTAGE (Fin (of_int c))) =
        Fin (of_int (c - (P + S)))"
    by (simp add: calculateFees_default [symmetric])
  then show "\<exists>P S. basePlatformFee_of (Fin (of_int c)) = Fin (of_int P) \<and>
      platformShareOfStripeFee_of (Fin (of_int c)) = Fin (of_int S) \<and>
      platformFee (calculateFees_with PLATFORM_FEE_PERCENTAGE (Fin (of_int c))) =
        Fin (of_int (P + S)) \<and>
      instructorAmount (calculateFees_with PLATFORM_FEE_PERCENTAGE (Fin (of_int c))) =
        Fin (of_int (c - (P + S)))"
    by blast
qed

theorem rounding_on_counterparty_side_witness:
  "(0::int) \<le> 1061 \<and> (1061::int) < 2 ^ 53 \<and> (1061::int) \<noteq> 31 \<and>
   (\<exists>P S. basePlatformFee_of (Fin 1061) = Fin (of_int P) \<and>
          platformShareOfStripeFee_of (Fin 1061) = Fin (of_int S) \<and>
          platformFee (calculateFees_with PLATFORM_FEE_PERCENTAGE (Fin 1061)) =
            Fin (of_int (P + S)) \<and>
          instructorAmount (calculateFees_with PLATFORM_FEE_PERCENTAGE (Fin 1061)) =
            Fin (of_int (1061 - (P + S)))) \<and>
   calculateFees_with PLATFORM_FEE_PERCENTAGE (Fin 1061) =
     \<lparr>platformFee = Fin 159, instructorAmount = Fin 902\<rparr>"
proof -
  have h: "(0::int) \<le> 1061 \<and> (1061::int) < 2 ^ 53 \<and> (1061::int) \<noteq> 31" by simp
  have "(0::int) \<le> 1061 \<and> (1061::int) < 2 ^ 53 \<and> (1061::int) \<noteq> 31 \<longrightarrow>
      (\<exists>P S. basePlatformFee_of (Fin (of_int 1061)) = Fin (of_int P) \<and>
             platformShareOfStripeFee_of (Fin (of_int 1061)) = Fin (of_int S) \<and>
             platformFee (calculateFees_with PLATFORM_FEE_PERCENTAGE (Fin (of_int 1061))) =
               Fin (of_int (P + S)) \<and>
             instructorAmount (calculateFees_with PLATFORM_FEE_PERCENTAGE (Fin (of_int 1061))) =
               Fin (of_int (1061 - (P + S))))"
    using rounding_on_counterparty_side
      [where c = 1061 and amount = "Fin 1061" and platformFeePercentage = "Fin 15"]
    by (elim conjE)
  then have "\<exists>P S. basePlatformFee_of (Fin (of_int 1061)) = Fin (of_int P) \<and>
      platformShareOfStripeFee_of (Fin (of_int 1061)) = Fin (of_int S) \<and>
      platformFee (calculateFees_with PLATFORM_FEE_PERCENTAGE (Fin (of_int 1061))) =
        Fin (of_int (P + S)) \<and>
      instructorAmount (calculateFees_with PLATFORM_FEE_PERCENTAGE (Fin (of_int 1061))) =
        Fin (of_int (1061 - (P + S)))"
    using h by (rule mp)
  then have "\<exists>P S. basePlatformFee_of (Fin 1061) = Fin (of_int P) \<and>
      platformShareOfStripeFee_of (Fin 1061) = Fin (of_int S) \<and>
      platformFee (calculateFees_with PLATFORM_FEE_PERCENTAGE (Fin 1061)) =
        Fin (of_int (P + S)) \<and>
      instructorAmount (calculateFees_with PLATFORM_FEE_PERCENTAGE (Fin 1061)) =
        Fin (of_int (1061 - (P + S)))"
    by (simp only: of_int_numeral)
  moreover have "calculateFees_with PLATFORM_FEE_PERCENTAGE (Fin 1061) =
      \<lparr>platformFee = Fin 159, instructorAmount = Fin 902\<rparr>"
    by (simp only: calculateFees_default [symmetric] calculateFees_1061)
  ultimately show ?thesis using h by blast
qed

subsection \<open>C7: errors\<close>

text \<open>
  C7 claims that the two functions signal \<open>InvalidAmount\<close> exactly when the amount is
  negative or not an integer. The amount \<open>-5\<close> is invalid, and
  \<open>calculatePriceWithStripeFees\<close> returns 26 for it.
\<close>

theorem negative_amount_is_not_rejected:
  "invalid_amount (Fin (- 5)) \<and>
   call_calculatePriceWithStripeFees (Fin (- 5)) = Inr (Fin 26)"
  by (simp add: invalid_amount_def call_calculatePriceWithStripeFees_def
      calculatePriceWithStripeFees_neg_5)

text \<open>
  C7 as amended: neither function signals \<open>InvalidAmount\<close>, or any error, for any amount:
  a negative or non-integer amount is computed on like any other and comes back as a
  number. \<open>calculatePriceWithStripeFees\<close> returns an integer or an infinity, never NaN, for
  every finite amount, negative and non-integer ones included; \<open>calculateFees\<close> returns
  the shares \<open>-1\<close> and \<open>-4\<close> for the amount \<open>-5\<close>, and 150 and 850.5 for the amount 1000.5.
\<close>

theorem invalid_amounts_are_computed_on:
  "(\<exists>r. call_calculateFees amount = Inr r) \<and>
   (\<exists>r. call_calculatePriceWithStripeFees amount = Inr r) \<and>
   (\<exists>v. call_calculatePriceWithStripeFees (Fin a) = Inr v \<and>
        (is_integer v \<or> v = PosInf \<or> v = NegInf)) \<and>
   call_calculateFees (Fin (- 5)) =
     Inr \<lparr>platformFee = Fin (- 1), instructorAmount = Fin (- 4)\<rparr> \<and>
   call_calculateFees (Fin (2001 / 2)) =
     Inr \<lparr>platformFee = Fin 150, instructorAmount = Fin (1701 / 2)\<rparr>"
proof -
  have "is_integer (calculatePriceWithStripeFees (Fin a)) \<or>
      calculatePriceWithStripeFees (Fin a) = PosInf \<or>
      calculatePriceWithStripeFees (Fin a) = NegInf"
    by (rule calculatePriceWithStripeFees_integer_or_infinite)
  then show ?thesis
    by (simp add: call_calculateFees_def call_calculatePriceWithStripeFees_def
        calculateFees_neg_5 calculateFees_1000_5)
qed

subsection \<open>C8: non-negative shares\<close>

text \<open>
  C8 claims that both shares returned by \<open>calculateFees\<close> are at least 0 for every
  non-negative integer amount. At the amount 31 both shares are NaN, and the comparison of 0
  with NaN is false.
\<close>

theorem shares_not_nonnegative_at_31:
  "\<not> js_le (Fin 0) (platformFee (calculateFees (Fin 31))) \<and>
   \<not> js_le (Fin 0) (instructorAmount (calculateFees (Fin 31)))"
  by (simp add: calculateFees_31)

subsection \<open>C9: monotonicity of the charge amount\<close>

text \<open>
  C9: \<open>calculatePriceWithStripeFees\<close> is non-decreasing: for all non-negative integers
  \<open>a \<le> b\<close>, the charge for \<open>a\<close> is at most the charge for \<open>b\<close>.
\<close>

theorem calculatePriceWithStripeFees_monotone:
  fixes a b :: int
  assumes "0 \<le> a" "a \<le> b"
  shows "js_le (calculatePriceWithStripeFees (Fin (of_int a)))
           (calculatePriceWithStripeFees (Fin (of_int b)))"
  using assms(2) by (intro calculatePriceWithStripeFees_mono) simp

theorem calculatePriceWithStripeFees_monotone_witness:
  "(0::int) \<le> 0 \<and> (0::int) \<le> 1000 \<and>
   js_le (calculatePriceWithStripeFees (Fin 0)) (calculatePriceWithStripeFees (Fin 1000)) \<and>
   calculatePriceWithStripeFees (Fin 0) = Fin 31 \<and>
   calculatePriceWithStripeFees (Fin 1000) = Fin 1061"
  using calculatePriceWithStripeFees_monotone [of 0 1000]
  by (simp add: calculatePriceWithStripeFees_0 calculatePriceWithStripeFees_1000)

subsection \<open>C10: the lower bound of the charge amount\<close>

text \<open>
  C10: for every non-negative integer base price \<open>b\<close>, \<open>calculatePriceWithStripeFees\<close>
  returns at least \<open>b + 30\<close>, the base price plus the fixed fee; in particular the charge for
  the base price 0 is greater than 0.
\<close>

theorem calculatePriceWithStripeFees_at_least_base_plus_fixed_fee:
  fixes b :: int
  assumes "0 \<le> b"
  shows "js_le (Fin (of_int b + 30)) (calculatePriceWithStripeFees (Fin (of_int b))) \<and>
         js_lt (Fin 0) (calculatePriceWithStripeFees (Fin 0))"
proof -
  have "js_le (Fin (of_int b + 30))
    (Math_round (js_div (fl (of_int b + 30)) (Fin (8745990476353503 / 9007199254740992))))"
    using assms by (intro calculatePriceWithStripeFees_lower [where n = "b + 30"]) simp_all
  then show ?thesis
    by (simp add: calculatePriceWithStripeFees_Fin [of "of_int b"] calculatePriceWithStripeFees_0)
qed

theorem calculatePriceWithStripeFees_at_least_base_plus_fixed_fee_witness:
  "(0::int) \<le> 1000 \<and>
   js_le (Fin 1030) (calculatePriceWithStripeFees (Fin 1000)) \<and>
   calculatePriceWithStripeFees (Fin 1000) = Fin 1061 \<and>
   js_lt (Fin 0) (calculatePriceWithStripeFees (Fin 0))"
  using calculatePriceWithStripeFees_at_least_base_plus_fixed_fee [of 1000]
  by (simp add: calculatePriceWithStripeFees_1000)

section \<open>The split away from the amount 31\<close>

text \<open>
  In the default configuration, with the platform percentage 15, the division of 0 by 0 is
  the only failure of the split on the integer amounts below \<open>2^53\<close>: at every other
  amount the shares are integers that sum to the amount.
\<close>

subsection \<open>Conservation at every amount but 31\<close>

text \<open>
  For every integer amount \<open>c\<close> with \<open>0 \<le> c < 2^53\<close> other than 31, the two shares
  returned by \<open>calculateFees\<close> are integers \<open>p\<close> and \<open>c - p\<close>, and their sum, computed
  as the program computes it, equals \<open>c\<close>.
\<close>

theorem calculateFees_conserves_amount:
  fixes c :: int
  assumes "0 \<le> c" "c < 2 ^ 53" "c \<noteq> 31"
  shows "(\<exists>p. calculateFees (Fin (of_int c)) =
            \<lparr>platformFee = Fin (of_int p), instructorAmount = Fin (of_int (c - p))\<rparr>) \<and>
         js_eq (js_add (platformFee (calculateFees (Fin (of_int c))))
                  (instructorAmount (calculateFees (Fin (of_int c))))) (Fin (of_int c))"
proof -
  obtain P S where f: "calculateFees (Fin (of_int c)) =
      \<lparr>platformFee = Fin (of_int (P + S)), instructorAmount = Fin (of_int (c - (P + S)))\<rparr>"
    using calculateFees_shape [OF assms] by blast
  have "(of_int c :: rat) < of_int (2 ^ 53)" using assms(2) by (simp only: of_int_less_iff)
  then have "\<bar>of_int c :: rat\<bar> \<le> 2 ^ 53" using assms(1) by simp
  then have "fl (of_int c) = Fin (of_int c)" by (rule fl_of_int)
  then have s: "js_add (Fin (of_int (P + S))) (Fin (of_int (c - (P + S)))) = Fin (of_int c)"
    by simp
  have "\<exists>p. calculateFees (Fin (of_int c)) =
      \<lparr>platformFee = Fin (of_int p), instructorAmount = Fin (of_int (c - p))\<rparr>"
    using f by (rule exI)
  moreover have "js_eq (js_add (platformFee (calculateFees (Fin (of_int c))))
      (instructorAmount (calculateFees (Fin (of_int c))))) (Fin (of_int c))"
    by (simp only: f fees.simps s js_eq.simps)
  ultimately show ?thesis by (rule conjI)
qed

theorem calculateFees_conserves_amount_witness:
  "(0::int) \<le> 1061 \<and> (1061::int) < 2 ^ 53 \<and> (1061::int) \<noteq> 31 \<and>
   js_eq (js_add (platformFee (calculateFees (Fin 1061)))
            (instructorAmount (calculateFees (Fin 1061)))) (Fin 1061)"
  using calculateFees_conserves_amount [of 1061] by simp

subsection \<open>The one amount with the base price 0\<close>

text \<open>
  Among the integer amounts \<open>c\<close> with \<open>0 \<le> c < 2^53\<close>, the base price that
  \<open>calculateFees\<close> recovers is 0 exactly for \<open>c = 31\<close>.
\<close>

theorem basePrice_of_zero_only_at_31:
  fixes c :: int
  assumes "0 \<le> c" "c < 2 ^ 53"
  shows "basePrice_of (Fin (of_int c)) = Fin 0 \<longleftrightarrow> c = 31"
proof
  assume z: "basePrice_of (Fin (of_int c)) = Fin 0"
  show "c = 31"
  proof (rule ccontr)
    assume "c \<noteq> 31"
    then obtain B where "basePrice_of (Fin (of_int c)) = Fin (of_int B)" "B \<noteq> 0"
      using calculateFees_shape [OF assms] by blast
    then show False using z by simp
  qed
next
  assume "c = 31"
  then show "basePrice_of (Fin (of_int c)) = Fin 0" by (simp add: basePrice_of_31)
qed

theorem basePrice_of_zero_only_at_31_witness:
  "(0::int) \<le> 31 \<and> (31::int) < 2 ^ 53 \<and> basePrice_of (Fin 31) = Fin 0 \<and>
   (0::int) \<le> 32 \<and> (32::int) < 2 ^ 53 \<and> basePrice_of (Fin 32) \<noteq> Fin 0"
  using basePrice_of_zero_only_at_31 [of 31] basePrice_of_zero_only_at_31 [of 32] by simp

subsection \<open>Non-negative shares from 32 on\<close>

text \<open>
  For every integer amount \<open>c\<close> with \<open>32 \<le> c < 2^53\<close>, both shares returned by
  \<open>calculateFees\<close> are at least 0.
\<close>

theorem calculateFees_nonnegative_from_32:
  fixes c :: int
  assumes "32 \<le> c" "c < 2 ^ 53"
  shows "js_le (Fin 0) (platformFee (calculateFees (Fin (of_int c)))) \<and>
         js_le (Fin 0) (instructorAmount (calculateFees (Fin (of_int c))))"
proof (cases "c \<le> 34")
  case True
  then consider "c = 32" | "c = 33" | "c = 34" using assms(1) by linarith
  then show ?thesis
    by cases (simp_all add: calculateFees_32 calculateFees_33 calculateFees_34)
next
  case False
  have c0: "0 \<le> c" and c31: "c \<noteq> 31" using assms(1) by simp_all
  obtain B P S T where h: "B \<le> c - 30" "0 \<le> S" "S \<le> T"
      "of_int T \<le> (of_int c :: rat) / 16 + 61 / 2"
      "0 \<le> P" "of_int P \<le> (of_int B :: rat) / 4 + 1 / 2"
    and f: "calculateFees (Fin (of_int c)) =
      \<lparr>platformFee = Fin (of_int (P + S)), instructorAmount = Fin (of_int (c - (P + S)))\<rparr>"
    using calculateFees_shape [OF c0 assms(2) c31] assms(1) by blast
  have "(of_int B :: rat) \<le> of_int (c - 30)" using h(1) by (simp only: of_int_le_iff)
  moreover have "(of_int S :: rat) \<le> of_int T" using h(3) by (simp only: of_int_le_iff)
  moreover have "(of_int 35 :: rat) \<le> of_int c" using False by (simp only: of_int_le_iff)
  ultimately have "(of_int (P + S) :: rat) \<le> of_int c" using h(4,6) by simp
  then have "P + S \<le> c" by (simp only: of_int_le_iff)
  then show ?thesis using h(2,5) by (simp add: f)
qed

theorem calculateFees_nonnegative_from_32_witness:
  "(32::int) \<le> 1061 \<and> (1061::int) < 2 ^ 53 \<and>
   js_le (Fin 0) (platformFee (calculateFees (Fin 1061))) \<and>
   js_le (Fin 0) (instructorAmount (calculateFees (Fin 1061)))"
  using calculateFees_nonnegative_from_32 [of 1061] by simp

subsection \<open>The amount 0\<close>

text \<open>\<open>calculateFees\<close> splits the amount 0 into the shares 0 and 0.\<close>

theorem calculateFees_zero:
  "calculateFees (Fin 0) = \<lparr>platformFee = Fin 0, instructorAmount = Fin 0\<rparr>"
  by (rule calculateFees_0)

end
